theory Spec2Isabelle
  imports Complex_Main
begin

section \<open>Order-to-cash and fiscal ledger engine\<close>

text \<open>
  A shallow embedding of the model methods of the retail back office: the sale status
  machine (\<open>Venda.prototype.atualizarStatus\<close>), fiscal document cancellation and
  access key (\<open>NotaFiscal\<close>), line item totals (\<open>ItemVenda\<close>), stock movements
  (\<open>Produto\<close>) and receivables (\<open>ContaReceber\<close>).

  Conventions. A method that mutates \<open>this\<close> is a function from the object to a pair
  of its outcome and the object as the call leaves it; the outcome is \<open>Inl e\<close> when the
  method throws and \<open>Inr r\<close> when it returns \<open>r\<close>. The object of an \<open>Inl\<close> outcome is
  the object at the moment of the \<open>throw\<close>, with every assignment made before it.
  \<open>await this.save()\<close> is taken to succeed and does not change the object. Each record
  keeps the attributes that the modelled methods read or write; the other columns are not
  touched by them. A finite JavaScript number is represented by the rational it denotes,
  and a \<open>DECIMAL\<close> attribute by its numeric value. The settlement of a receivable
  branches on sums of several amounts, so there every operation is rounded to the nearest
  double; elsewhere no branch depends on the rounding (the sign of a rounded sum or
  difference of two doubles is the sign of the exact one) and the operations are exact.
  Instants (\<open>Date\<close> objects) are integers, the milliseconds since the epoch.
\<close>

subsection \<open>Errors\<close>

text \<open>
  The source throws plain \<open>Error\<close> objects that differ by message. Each constructor
  stands for one \<open>throw\<close> site:
  \<^item> \<open>IllegalTransitionError\<close>: "Nao e possivel alterar o status de ... para ..." (Venda);
  \<^item> \<open>InvalidStateError\<close>: "Nota fiscal nao pode ser cancelada no status atual";
  \<^item> \<open>ValidationError\<close>: "Justificativa deve ter no minimo 15 caracteres";
  \<^item> \<open>InsufficientStockError\<close>: "Estoque insuficiente";
  \<^item> \<open>InvalidOperationError\<close>: "Tipo de operacao invalido";
  \<^item> \<open>OverpaymentError\<close>: "Valor do recebimento maior que o valor restante";
  \<^item> \<open>NotRecurringError\<close>: "Conta nao e recorrente";
  \<^item> \<open>TypeError\<close>: the runtime's error for a property read on \<open>undefined\<close>.
\<close>

datatype error =
    IllegalTransitionError
  | InvalidStateError
  | ValidationError
  | InsufficientStockError
  | InvalidOperationError
  | OverpaymentError
  | NotRecurringError
  | TypeError

subsection \<open>Sale status machine\<close>

record venda =
  venda_status :: string
  data_entrega_realizada :: "int option"

text \<open>The values of the \<open>status\<close> ENUM column of \<open>Venda\<close>.\<close>

definition venda_status_enum :: "string list" where
  "venda_status_enum =
     [''pendente'', ''aprovada'', ''em_separacao'', ''faturada'', ''em_transporte'',
      ''entregue'', ''cancelada'']"

text \<open>The object literal \<open>statusValidos\<close>, key by key.\<close>

definition statusValidos :: "(string \<times> string list) list" where
  "statusValidos =
     [(''pendente'', [''aprovada'', ''cancelada'']),
      (''aprovada'', [''em_separacao'', ''cancelada'']),
      (''em_separacao'', [''faturada'', ''cancelada'']),
      (''faturada'', [''em_transporte'', ''entregue'', ''cancelada'']),
      (''em_transporte'', [''entregue'', ''cancelada'']),
      (''entregue'', []),
      (''cancelada'', [])]"

text \<open>
  \<open>atualizarStatus(novoStatus, userId)\<close>; \<open>agora\<close> is the value of \<open>new Date()\<close> and
  \<open>userId\<close> is unused by the body. A status that is no key of the table makes
  \<open>statusValidos[this.status]\<close> undefined, and \<open>.includes\<close> on it a \<open>TypeError\<close>.
\<close>

definition atualizarStatus :: "string \<Rightarrow> int \<Rightarrow> venda \<Rightarrow> (error + bool) \<times> venda" where
  "atualizarStatus novoStatus agora v =
     (case map_of statusValidos (venda_status v) of
        None \<Rightarrow> (Inl TypeError, v)
      | Some permitidos \<Rightarrow>
          if novoStatus \<notin> set permitidos then (Inl IllegalTransitionError, v)
          else (Inr True,
                v\<lparr>venda_status := novoStatus,
                  data_entrega_realizada :=
                    (if novoStatus = ''entregue'' then Some agora
                     else data_entrega_realizada v)\<rparr>))"

text \<open>\<open>podeSerCancelada()\<close>.\<close>

definition podeSerCancelada :: "venda \<Rightarrow> bool" where
  "podeSerCancelada v \<longleftrightarrow> venda_status v \<notin> set [''entregue'', ''cancelada'']"

text \<open>
  The transition table as the specification words it (section 4.3), with the source's
  status names: pending is \<open>pendente\<close>, approved \<open>aprovada\<close>, picking \<open>em_separacao\<close>,
  invoiced \<open>faturada\<close>, shipping \<open>em_transporte\<close>, delivered \<open>entregue\<close>, cancelled
  \<open>cancelada\<close>.
\<close>

definition spec_legal_set :: "string \<Rightarrow> string set" where
  "spec_legal_set s =
     (if s = ''pendente'' then {''aprovada'', ''cancelada''}
      else if s = ''aprovada'' then {''em_separacao'', ''cancelada''}
      else if s = ''em_separacao'' then {''faturada'', ''cancelada''}
      else if s = ''faturada'' then {''em_transporte'', ''entregue'', ''cancelada''}
      else if s = ''em_transporte'' then {''entregue'', ''cancelada''}
      else {})"

subsection \<open>Fiscal document: cancellation\<close>

datatype nf_status =
    Em_digitacao | Nf_pendente | Processando | Autorizada | Nf_cancelada | Rejeitada
  | Inutilizada

datatype tipo_documento = Nfce | Nfe

text \<open>
  \<open>data_emissao\<close> is a \<open>Date\<close>; the access key reads it only through
  \<open>toISOString()\<close>, so the record holds its UTC calendar year and month (1 to 12).
\<close>

record nota_fiscal =
  tipo_documento :: tipo_documento
  numero :: int
  serie :: int
  emissao_ano :: int
  emissao_mes :: nat
  nf_status :: nf_status
  justificativa_cancelamento :: "string option"

text \<open>
  \<open>cancelar(justificativa)\<close>. The argument is \<open>None\<close> for \<open>null\<close> or \<open>undefined\<close>;
  \<open>!justificativa\<close> also holds of the empty string. The status test comes first.
\<close>

definition cancelar :: "string option \<Rightarrow> nota_fiscal \<Rightarrow> (error + bool) \<times> nota_fiscal" where
  "cancelar justificativa n =
     (if nf_status n \<notin> set [Autorizada] then (Inl InvalidStateError, n)
      else case justificativa of
          None \<Rightarrow> (Inl ValidationError, n)
        | Some j \<Rightarrow>
            if j = [] \<or> length j < 15 then (Inl ValidationError, n)
            else (Inr True,
                  n\<lparr>nf_status := Nf_cancelada, justificativa_cancelamento := Some j\<rparr>))"

subsection \<open>Fiscal document: access key\<close>

text \<open>Decimal digits and \<open>Number.prototype.toString\<close> on integers.\<close>

definition digit_char :: "nat \<Rightarrow> char" where
  "digit_char d = char_of (48 + d)"

fun nat_toString :: "nat \<Rightarrow> string" where
  "nat_toString n =
     (if n < 10 then [digit_char n] else nat_toString (n div 10) @ [digit_char (n mod 10)])"

declare nat_toString.simps [simp del]

definition int_toString :: "int \<Rightarrow> string" where
  "int_toString i = (if i < 0 then CHR ''-'' # nat_toString (nat (- i)) else nat_toString (nat i))"

text \<open>\<open>String.prototype.padStart\<close> with a one-character filler: it pads and never cuts.\<close>

definition padStart :: "nat \<Rightarrow> char \<Rightarrow> string \<Rightarrow> string" where
  "padStart k c s = replicate (k - length s) c @ s"

text \<open>\<open>String.prototype.slice(a, b)\<close> for \<open>0 \<le> a \<le> b\<close>.\<close>

definition slice :: "nat \<Rightarrow> nat \<Rightarrow> string \<Rightarrow> string" where
  "slice a b s = take (b - a) (drop a s)"

text \<open>
  The start of \<open>Date.prototype.toISOString()\<close>, up to the month: \<open>YYYY-MM\<close> for the
  years 0 to 9999, and the expanded form with a sign and six digits otherwise. The
  characters after the month are not read by \<open>gerarChaveAcesso\<close>.
\<close>

definition toISOString_prefix :: "int \<Rightarrow> nat \<Rightarrow> string" where
  "toISOString_prefix y m =
     (if 0 \<le> y \<and> y \<le> 9999 then padStart 4 CHR ''0'' (nat_toString (nat y))
      else (if y < 0 then CHR ''-'' else CHR ''+'') # padStart 6 CHR ''0'' (nat_toString (nat \<bar>y\<bar>)))
     @ ''-'' @ padStart 2 CHR ''0'' (nat_toString m)"

text \<open>\<open>parseInt\<close> of a one-character string: \<open>None\<close> is \<open>NaN\<close>.\<close>

definition parseInt_char :: "char \<Rightarrow> nat option" where
  "parseInt_char c =
     (let k = (of_char c :: nat) in if 48 \<le> k \<and> k \<le> 57 then Some (k - 48) else None)"

text \<open>
  The \<open>for\<close> loop of the check digit, on the characters still to visit (last character
  first), the current weight and the running sum; \<open>None\<close> is a sum that became \<open>NaN\<close>.
\<close>

fun soma_loop :: "string \<Rightarrow> nat \<Rightarrow> nat option \<Rightarrow> nat option" where
  "soma_loop [] peso soma = soma"
| "soma_loop (c # cs) peso soma =
     soma_loop cs (if peso = 9 then 2 else peso + 1)
       (case (soma, parseInt_char c) of
          (Some s, Some d) \<Rightarrow> Some (s + d * peso)
        | _ \<Rightarrow> None)"

definition digitoVerificador :: "string \<Rightarrow> string" where
  "digitoVerificador baseChave =
     (case soma_loop (rev baseChave) 2 (Some 0) of
        None \<Rightarrow> ''NaN''
      | Some soma \<Rightarrow>
          (let dv = 11 - int (soma mod 11)
           in if dv = 10 \<or> dv = 11 then ''0'' else int_toString dv))"

record empresa =
  codigo_uf :: int
  cnpj :: string

definition baseChave :: "empresa \<Rightarrow> nat \<Rightarrow> nota_fiscal \<Rightarrow> string" where
  "baseChave emp cNF n =
     (let uf = padStart 2 CHR ''0'' (int_toString (codigo_uf emp));
          iso = toISOString_prefix (emissao_ano n) (emissao_mes n);
          data = slice 2 4 iso @ slice 5 7 iso;
          cnpj14 = padStart 14 CHR ''0'' (cnpj emp);
          modelo = (if tipo_documento n = Nfce then ''65'' else ''55'');
          serie3 = padStart 3 CHR ''0'' (int_toString (serie n));
          numero9 = padStart 9 CHR ''0'' (int_toString (numero n));
          tpEmis = ''1'';
          cNF8 = padStart 8 CHR ''0'' (nat_toString cNF)
      in uf @ data @ cnpj14 @ modelo @ serie3 @ numero9 @ tpEmis @ cNF8)"

text \<open>
  \<open>gerarChaveAcesso(empresa)\<close>; \<open>cNF\<close> is the value of
  \<open>Math.floor(Math.random() * 99999999)\<close>, an input of the model.
\<close>

definition gerarChaveAcesso :: "empresa \<Rightarrow> nat \<Rightarrow> nota_fiscal \<Rightarrow> string" where
  "gerarChaveAcesso emp cNF n = baseChave emp cNF n @ digitoVerificador (baseChave emp cNF n)"

text \<open>
  The check digit as the specification words it (section 4.4): the digit at distance
  \<open>k\<close> from the end of the base string has weight \<open>2 + k mod 8\<close>.
\<close>

definition spec_weighted_sum :: "string \<Rightarrow> nat" where
  "spec_weighted_sum b =
     (\<Sum>k < length b. ((of_char (rev b ! k) :: nat) - 48) * (2 + k mod 8))"

definition spec_check_digit :: "string \<Rightarrow> nat" where
  "spec_check_digit b =
     (let dv = 11 - spec_weighted_sum b mod 11 in if dv = 10 \<or> dv = 11 then 0 else dv)"

text \<open>
  The fields of the base string as the specification words them: a field of width \<open>k\<close>
  holds the \<open>k\<close> low decimal digits of its value, the high digit first, so that a value
  below \<open>10 ^ k\<close> is padded with zeros on the left.
\<close>

fun spec_field :: "nat \<Rightarrow> nat \<Rightarrow> string" where
  "spec_field 0 v = []"
| "spec_field (Suc k) v = spec_field k (v div 10) @ [digit_char (v mod 10)]"

definition is_digit :: "char \<Rightarrow> bool" where
  "is_digit c \<longleftrightarrow> 48 \<le> (of_char c :: nat) \<and> (of_char c :: nat) \<le> 57"

definition spec_base_string :: "empresa \<Rightarrow> nat \<Rightarrow> nota_fiscal \<Rightarrow> string" where
  "spec_base_string emp cNF n =
     spec_field 2 (nat (codigo_uf emp))
     @ spec_field 2 (nat (emissao_ano n mod 100)) @ spec_field 2 (emissao_mes n)
     @ replicate (14 - length (cnpj emp)) CHR ''0'' @ cnpj emp
     @ (if tipo_documento n = Nfe then ''55'' else ''65'')
     @ spec_field 3 (nat (serie n))
     @ spec_field 9 (nat (numero n))
     @ ''1''
     @ spec_field 8 cNF"

subsection \<open>JavaScript numbers with their special values\<close>

text \<open>
  Division is where the special values of a JavaScript number appear, so the margin of a
  line item is computed on \<open>jsnum\<close>: a finite value (\<open>Fin 0\<close> is \<open>+0\<close>), the negative
  zero, the two infinities and \<open>NaN\<close>. The operators follow IEEE 754 on signs, zeros and
  infinities, and are exact on finite values.
\<close>

datatype jsnum = Fin rat | NegZero | PosInf | NegInf | NaN

fun js_sign :: "jsnum \<Rightarrow> bool" where
  "js_sign (Fin r) = (r < 0)"
| "js_sign NegZero = True"
| "js_sign PosInf = False"
| "js_sign NegInf = True"
| "js_sign NaN = False"

fun js_fin :: "jsnum \<Rightarrow> rat option" where
  "js_fin (Fin r) = Some r"
| "js_fin NegZero = Some 0"
| "js_fin PosInf = None"
| "js_fin NegInf = None"
| "js_fin NaN = None"

definition js_inf :: "bool \<Rightarrow> jsnum" where
  "js_inf negative = (if negative then NegInf else PosInf)"

definition js_signed :: "rat \<Rightarrow> bool \<Rightarrow> jsnum" where
  "js_signed r negative = (if r = 0 then (if negative then NegZero else Fin 0) else Fin r)"

definition js_mul :: "jsnum \<Rightarrow> jsnum \<Rightarrow> jsnum" where
  "js_mul a b =
     (if a = NaN \<or> b = NaN then NaN
      else case (js_fin a, js_fin b) of
          (Some x, Some y) \<Rightarrow> js_signed (x * y) (js_sign a \<noteq> js_sign b)
        | (Some x, None) \<Rightarrow> if x = 0 then NaN else js_inf (js_sign a \<noteq> js_sign b)
        | (None, Some y) \<Rightarrow> if y = 0 then NaN else js_inf (js_sign a \<noteq> js_sign b)
        | (None, None) \<Rightarrow> js_inf (js_sign a \<noteq> js_sign b))"

definition js_div :: "jsnum \<Rightarrow> jsnum \<Rightarrow> jsnum" where
  "js_div a b =
     (if a = NaN \<or> b = NaN then NaN
      else case (js_fin a, js_fin b) of
          (Some x, Some y) \<Rightarrow>
            if y = 0 then (if x = 0 then NaN else js_inf (js_sign a \<noteq> js_sign b))
            else js_signed (x / y) (js_sign a \<noteq> js_sign b)
        | (Some x, None) \<Rightarrow> js_signed 0 (js_sign a \<noteq> js_sign b)
        | (None, Some y) \<Rightarrow> js_inf (js_sign a \<noteq> js_sign b)
        | (None, None) \<Rightarrow> NaN)"

definition js_sub :: "jsnum \<Rightarrow> jsnum \<Rightarrow> jsnum" where
  "js_sub a b =
     (if a = NaN \<or> b = NaN then NaN
      else case (js_fin a, js_fin b) of
          (Some x, Some y) \<Rightarrow> js_signed (x - y) (a = NegZero \<and> b = Fin 0)
        | (Some x, None) \<Rightarrow> js_inf (\<not> js_sign b)
        | (None, Some y) \<Rightarrow> a
        | (None, None) \<Rightarrow> if js_sign a = js_sign b then NaN else a)"

subsection \<open>Line item totals\<close>

text \<open>
  The numeric attributes are taken as numbers. \<open>margem_lucro\<close> is a nullable column:
  \<open>None\<close> is \<open>null\<close>.
\<close>

record item_venda =
  quantidade :: rat
  preco_unitario :: rat
  desconto_percentual :: rat
  desconto_valor :: rat
  acrescimo_percentual :: rat
  acrescimo_valor :: rat
  item_valor_total :: rat
  custo_unitario :: rat
  margem_lucro :: "jsnum option"

record totais_item =
  ret_subtotal :: rat
  ret_desconto :: rat
  ret_acrescimo :: rat
  ret_total :: rat
  ret_margem_lucro :: "jsnum option"

text \<open>
  \<open>ItemVenda.prototype.calcularTotais()\<close>. The body has no \<open>throw\<close> and calls nothing
  that throws, so the outcome is the returned object and the updated item.
\<close>

definition calcularTotais :: "item_venda \<Rightarrow> totais_item \<times> item_venda" where
  "calcularTotais it =
     (let valorDesconto =
            (if desconto_percentual it > 0
             then preco_unitario it * quantidade it * desconto_percentual it / 100
             else desconto_valor it);
          valorAcrescimo =
            (if acrescimo_percentual it > 0
             then preco_unitario it * quantidade it * acrescimo_percentual it / 100
             else acrescimo_valor it);
          total = preco_unitario it * quantidade it - valorDesconto + valorAcrescimo;
          custoTotal = js_mul (Fin (custo_unitario it)) (Fin (quantidade it));
          margem = js_mul (js_div (js_sub (Fin total) custoTotal) custoTotal) (Fin 100);
          it' = it\<lparr>item_valor_total := total, margem_lucro := Some margem\<rparr>
      in (\<lparr>ret_subtotal = preco_unitario it * quantidade it,
            ret_desconto = valorDesconto,
            ret_acrescimo = valorAcrescimo,
            ret_total = item_valor_total it',
            ret_margem_lucro = margem_lucro it'\<rparr>, it'))"

subsection \<open>Stock movements\<close>

datatype produto_status = Ativo | Inativo | Em_promocao | Esgotado

record produto =
  estoque_atual :: rat
  produto_status :: produto_status

record movimento =
  oldStock :: rat
  newStock :: rat
  difference :: rat

text \<open>The block that derives the status from the new balance.\<close>

definition atualiza_status_estoque :: "produto \<Rightarrow> produto" where
  "atualiza_status_estoque p =
     (if estoque_atual p \<le> 0 then p\<lparr>produto_status := Esgotado\<rparr>
      else if produto_status p = Esgotado then p\<lparr>produto_status := Ativo\<rparr>
      else p)"

text \<open>
  \<open>Produto.prototype.atualizarEstoque(quantidade, tipo)\<close>; \<open>qtd\<close> is the value of
  \<open>parseFloat(quantidade)\<close>.
\<close>

definition atualizarEstoque :: "rat \<Rightarrow> string \<Rightarrow> produto \<Rightarrow> (error + movimento) \<times> produto" where
  "atualizarEstoque qtd tipo p =
     (let old = estoque_atual p;
          finish = (\<lambda>p1. let p2 = atualiza_status_estoque p1
                         in (Inr \<lparr>oldStock = old, newStock = estoque_atual p2,
                                   difference = estoque_atual p2 - old\<rparr>, p2))
      in if tipo = ''entrada'' then finish (p\<lparr>estoque_atual := estoque_atual p + qtd\<rparr>)
         else if tipo = ''saida'' then
           (if estoque_atual p < qtd then (Inl InsufficientStockError, p)
            else finish (p\<lparr>estoque_atual := estoque_atual p - qtd\<rparr>))
         else (Inl InvalidOperationError, p))"

subsection \<open>Calendar dates\<close>

text \<open>
  A \<open>DATEONLY\<close> attribute is a calendar date \<open>YYYY-MM-DD\<close>, with the month from 1 to 12.
  \<open>new Date\<close> of it is the instant of its midnight in UTC. The calendar methods of
  \<open>Date\<close> (\<open>getMonth\<close>, \<open>setMonth\<close>) read and write the calendar fields of that instant
  in the time zone of the process. The zone is a parameter of the model, \<open>fuso\<close>: its
  offset from UTC in minutes, positive east of Greenwich, between -12 h and +14 h and the
  same at every date involved.
\<close>

record date =
  ano :: int
  mes :: nat
  dia :: nat

definition leap_year :: "int \<Rightarrow> bool" where
  "leap_year y \<longleftrightarrow> y mod 4 = 0 \<and> (y mod 100 \<noteq> 0 \<or> y mod 400 = 0)"

definition days_in_month :: "int \<Rightarrow> nat \<Rightarrow> nat" where
  "days_in_month y m =
     (if m = 2 then (if leap_year y then 29 else 28)
      else if m = 4 \<or> m = 6 \<or> m = 9 \<or> m = 11 then 30 else 31)"

text \<open>Days from 1970-01-01 to a date of the proleptic Gregorian calendar.\<close>

definition days_from_civil :: "date \<Rightarrow> int" where
  "days_from_civil d =
     (let y = (if mes d \<le> 2 then ano d - 1 else ano d);
          era = y div 400;
          yoe = y - era * 400;
          mp = (if mes d > 2 then int (mes d) - 3 else int (mes d) + 9);
          doy = (153 * mp + 2) div 5 + int (dia d) - 1;
          doe = yoe * 365 + yoe div 4 - yoe div 100 + doy
      in era * 146097 + doe - 719468)"

definition date_to_ms :: "date \<Rightarrow> int" where
  "date_to_ms d = days_from_civil d * 86400000"

text \<open>
  \<open>d.setMonth(m)\<close> with \<open>m \<ge> 0\<close> counted from 0: the year moves by \<open>m div 12\<close>, and a
  day that the target month does not have runs over into the month after it (a day of
  the month is at most 31 and a month has at least 28 days, so it runs over once).
\<close>

definition setMonth :: "nat \<Rightarrow> date \<Rightarrow> date" where
  "setMonth m d =
     (let y = ano d + int (m div 12);
          mn = m mod 12 + 1;
          dm = days_in_month y mn
      in if dia d \<le> dm then \<lparr>ano = y, mes = mn, dia = dia d\<rparr>
         else if mn = 12 then \<lparr>ano = y + 1, mes = 1, dia = dia d - dm\<rparr>
         else \<lparr>ano = y, mes = mn + 1, dia = dia d - dm\<rparr>)"

definition getMonth :: "date \<Rightarrow> nat" where
  "getMonth d = mes d - 1"

text \<open>The day before a date.\<close>

definition prev_day :: "date \<Rightarrow> date" where
  "prev_day d =
     (if 1 < dia d then d\<lparr>dia := dia d - 1\<rparr>
      else if 1 < mes d then \<lparr>ano = ano d, mes = mes d - 1, dia = days_in_month (ano d) (mes d - 1)\<rparr>
      else \<lparr>ano = ano d - 1, mes = 12, dia = 31\<rparr>)"

text \<open>
  The calendar date, in the zone of the process, of the instant \<open>new Date(d)\<close>: the
  midnight in UTC of \<open>d\<close> falls on \<open>d\<close> itself at or east of UTC, and on the evening of
  the day before west of it.
\<close>

definition local_date :: "int \<Rightarrow> date \<Rightarrow> date" where
  "local_date fuso d = (if 0 \<le> fuso then d else prev_day d)"

subsection \<open>Double-precision arithmetic\<close>

text \<open>
  \<open>to_double x\<close> is the IEEE 754 binary64 number nearest to \<open>x\<close>, a tie going to the
  even significand: with \<open>2 ^ e \<le> \<bar>x\<bar> < 2 ^ (e + 1)\<close> the doubles around \<open>x\<close> are the
  multiples of \<open>2 ^ (e - 52)\<close>, and of \<open>2 ^ (- 1074)\<close> below the normal range. Magnitudes
  from \<open>2 ^ 1024\<close> on, which overflow, are outside the model; no sum of \<open>DECIMAL(15, 2)\<close>
  amounts comes near them.
\<close>

fun bit_length :: "nat \<Rightarrow> nat" where
  "bit_length n = (if n = 0 then 0 else Suc (bit_length (n div 2)))"

declare bit_length.simps [simp del]

text \<open>The exponent \<open>e\<close> with \<open>2 ^ e \<le> x < 2 ^ (e + 1)\<close>, for \<open>x > 0\<close>.\<close>

definition floor_log2 :: "rat \<Rightarrow> int" where
  "floor_log2 x =
     (if 1 \<le> x then int (bit_length (nat \<lfloor>x\<rfloor>)) - 1
      else - int (bit_length (nat (\<lceil>1 / x\<rceil> - 1))))"

definition pow2 :: "int \<Rightarrow> rat" where
  "pow2 k = (if 0 \<le> k then 2 ^ nat k else 1 / 2 ^ nat (- k))"

definition round_half_even :: "rat \<Rightarrow> int" where
  "round_half_even x =
     (let f = \<lfloor>x\<rfloor>; r = x - of_int f
      in if r < 1 / 2 then f else if 1 / 2 < r then f + 1 else if even f then f else f + 1)"

definition to_double :: "rat \<Rightarrow> rat" where
  "to_double x =
     (if x = 0 then 0
      else let e = max (floor_log2 \<bar>x\<bar>) (- 1022); ulp = pow2 (e - 52)
           in of_int (round_half_even (x / ulp)) * ulp)"

text \<open>
  \<open>parseFloat\<close> of a decimal numeral or of a number, and the operators \<open>+\<close> and \<open>-\<close> on
  numbers.
\<close>

definition parseFloat :: "rat \<Rightarrow> rat" where
  "parseFloat x = to_double x"

definition js_plus :: "rat \<Rightarrow> rat \<Rightarrow> rat" where
  "js_plus a b = to_double (a + b)"

definition js_minus :: "rat \<Rightarrow> rat \<Rightarrow> rat" where
  "js_minus a b = to_double (a - b)"

subsection \<open>Receivables\<close>

datatype cr_status =
    Em_aberto | Parcialmente_recebido | Recebido | Cancelado | Vencido | Protestado

datatype periodicidade = Mensal | Bimestral | Trimestral | Semestral | Anual

record conta_receber =
  cr_id :: nat
  numero_documento :: string
  data_vencimento :: date
  data_recebimento :: "int option"
  valor_original :: rat
  valor_juros :: rat
  valor_multa :: rat
  valor_desconto :: rat
  valor_recebido :: rat
  valor_restante :: rat
  cr_status :: cr_status
  recorrente :: bool
  periodicidade :: "periodicidade option"
  data_proximo_vencimento :: "date option"
  numero_parcela :: "nat option"
  total_parcelas :: "nat option"

text \<open>
  \<open>calcularValorRestante()\<close>: stores the value in \<open>valor_restante\<close> and returns it.
  \<open>valorTotal\<close> is its local constant of that name.
\<close>

definition valorTotal :: "conta_receber \<Rightarrow> rat" where
  "valorTotal c =
     js_minus
       (js_plus (js_plus (parseFloat (valor_original c)) (parseFloat (valor_juros c)))
          (parseFloat (valor_multa c)))
       (parseFloat (valor_desconto c))"

definition calcularValorRestante :: "conta_receber \<Rightarrow> rat \<times> conta_receber" where
  "calcularValorRestante c =
     (let c' = c\<lparr>valor_restante := js_minus (valorTotal c) (parseFloat (valor_recebido c))\<rparr>
      in (valor_restante c', c'))"

text \<open>The value that \<open>calcularValorRestante()\<close> returns.\<close>

definition valor_restante_atual :: "conta_receber \<Rightarrow> rat" where
  "valor_restante_atual c = fst (calcularValorRestante c)"

text \<open>
  The remaining amount as the specification words it (section 4.5): original plus
  interest plus penalty, less discount, less settled.
\<close>

definition spec_remaining :: "conta_receber \<Rightarrow> rat" where
  "spec_remaining c =
     valor_original c + valor_juros c + valor_multa c - valor_desconto c - valor_recebido c"

record recebimento =
  valorRecebido :: rat
  valorRestante :: rat
  status_ret :: cr_status

text \<open>
  \<open>registrarRecebimento(valorRecebido, dataRecebimento = new Date())\<close>. \<open>valor\<close> is the
  amount the caller wrote, which as a JavaScript number is \<open>to_double valor\<close>;
  \<open>dataRecebimento\<close> is the second argument once its default is resolved (the clock when
  it was left out), \<open>None\<close> when the caller passed \<open>null\<close>.
\<close>

definition registrarRecebimento ::
  "rat \<Rightarrow> int option \<Rightarrow> conta_receber \<Rightarrow> (error + recebimento) \<times> conta_receber" where
  "registrarRecebimento valor dataRecebimento c =
     (let (valorRestanteAtual, c1) = calcularValorRestante c
      in if to_double valor > valorRestanteAtual then (Inl OverpaymentError, c1)
         else
           (let c2 = c1\<lparr>valor_recebido :=
                          js_plus (parseFloat (valor_recebido c1)) (parseFloat valor),
                        data_recebimento := dataRecebimento\<rparr>;
                c3 = snd (calcularValorRestante c2);
                c4 = (if valor_restante c3 = 0 then c3\<lparr>cr_status := Recebido\<rparr>
                      else if valor_recebido c3 > 0 then c3\<lparr>cr_status := Parcialmente_recebido\<rparr>
                      else c3)
            in (Inr \<lparr>valorRecebido = valor_recebido c4,
                      valorRestante = valor_restante c4,
                      status_ret = cr_status c4\<rparr>, c4)))"

text \<open>
  No operation of a settlement of \<open>valor\<close> on the entry rounds: the amounts and the sums
  that \<open>registrarRecebimento\<close> forms are doubles as they stand.
\<close>

definition no_rounding :: "conta_receber \<Rightarrow> rat \<Rightarrow> bool" where
  "no_rounding c valor \<longleftrightarrow>
     to_double (valor_original c) = valor_original c
     \<and> to_double (valor_juros c) = valor_juros c
     \<and> to_double (valor_multa c) = valor_multa c
     \<and> to_double (valor_desconto c) = valor_desconto c
     \<and> to_double (valor_recebido c) = valor_recebido c
     \<and> to_double valor = valor
     \<and> to_double (valor_original c + valor_juros c) = valor_original c + valor_juros c
     \<and> to_double (valor_original c + valor_juros c + valor_multa c)
         = valor_original c + valor_juros c + valor_multa c
     \<and> to_double (valor_original c + valor_juros c + valor_multa c - valor_desconto c)
         = valor_original c + valor_juros c + valor_multa c - valor_desconto c
     \<and> to_double (valor_original c + valor_juros c + valor_multa c - valor_desconto c
           - valor_recebido c)
         = valor_original c + valor_juros c + valor_multa c - valor_desconto c - valor_recebido c
     \<and> to_double (valor_recebido c + valor) = valor_recebido c + valor"

text \<open>\<open>estaVencida()\<close>; \<open>hoje\<close> is the value of \<open>new Date()\<close> read by the body.\<close>

definition estaVencida :: "int \<Rightarrow> conta_receber \<Rightarrow> bool" where
  "estaVencida hoje c \<longleftrightarrow> date_to_ms (data_vencimento c) < hoje \<and> cr_status c \<noteq> Recebido"

record juros_multa =
  juros :: rat
  multa :: rat

text \<open>
  \<open>calcularJurosMulta(dataBase = new Date())\<close>. \<open>dataBase\<close> is the argument once its
  default is resolved; \<open>hoje\<close> is the clock that \<open>estaVencida()\<close> reads. \<open>Math.floor\<close> of
  the quotient of two integers is \<open>div\<close>.
\<close>

definition calcularJurosMulta ::
  "int \<Rightarrow> int \<Rightarrow> conta_receber \<Rightarrow> juros_multa \<times> conta_receber" where
  "calcularJurosMulta dataBase hoje c =
     (if \<not> estaVencida hoje c then (\<lparr>juros = 0, multa = 0\<rparr>, c)
      else
        (let vencimento = date_to_ms (data_vencimento c);
             diasAtraso = (dataBase - vencimento) div (1000 * 60 * 60 * 24);
             m = valor_original c * (2 / 100);
             j = valor_original c * ((33 / 100000) * of_int diasAtraso)
         in (\<lparr>juros = j, multa = m\<rparr>, c\<lparr>valor_multa := m, valor_juros := j\<rparr>)))"

text \<open>The object literal \<open>periodos\<close>.\<close>

fun periodos :: "periodicidade \<Rightarrow> nat" where
  "periodos Mensal = 1"
| "periodos Bimestral = 2"
| "periodos Trimestral = 3"
| "periodos Semestral = 6"
| "periodos Anual = 12"

text \<open>
  \<open>gerarProximaRecorrencia()\<close>. \<open>novo_id\<close> is the identifier that \<open>ContaReceber.create\<close>
  gives the row (\<open>id: undefined\<close> asks for a fresh one); the created row is the result,
  and \<open>this\<close> is not assigned to. \<open>novaData\<close> starts as the instant of the due date's
  midnight in UTC, and \<open>getMonth\<close> and \<open>setMonth\<close> work on its calendar fields in the zone
  of the process; \<open>create\<close> keeps, for the \<open>DATEONLY\<close> attribute, the calendar date of
  \<open>novaData\<close> in that zone.
\<close>

definition gerarProximaRecorrencia ::
  "int \<Rightarrow> nat \<Rightarrow> conta_receber \<Rightarrow> (error + conta_receber) \<times> conta_receber" where
  "gerarProximaRecorrencia fuso novo_id c =
     (if \<not> recorrente c then (Inl NotRecurringError, c)
      else case periodicidade c of
          None \<Rightarrow> (Inl NotRecurringError, c)
        | Some p \<Rightarrow>
            (let local = local_date fuso (data_vencimento c);
                 novaData = setMonth (getMonth local + periodos p) local;
                 novaConta = c\<lparr>cr_id := novo_id,
                               data_vencimento := novaData,
                               data_recebimento := None,
                               valor_recebido := 0,
                               valor_restante := valor_original c,
                               cr_status := Em_aberto,
                               data_proximo_vencimento := None\<rparr>
             in (Inr novaConta, c)))"

text \<open>
  A date plus \<open>k\<close> months as the specification words it (section 4.5), on the count of
  months since year 0: the month count grows by \<open>k\<close> and the day of the month is kept.
  The result is no date of the calendar when the month reached is too short for the day.
\<close>

definition spec_add_months :: "nat \<Rightarrow> date \<Rightarrow> date" where
  "spec_add_months k d =
     \<lparr>ano = (12 * ano d + int (mes d) - 1 + int k) div 12,
      mes = nat ((12 * ano d + int (mes d) - 1 + int k) mod 12) + 1,
      dia = dia d\<rparr>"

text \<open>The lengths of the twelve months of the Gregorian calendar, as a table.\<close>

definition spec_month_length :: "int \<Rightarrow> nat \<Rightarrow> nat" where
  "spec_month_length y m =
     [31, if (y mod 4 = 0 \<and> y mod 100 \<noteq> 0) \<or> y mod 400 = 0 then 29 else 28,
      31, 30, 31, 30, 31, 31, 30, 31, 30, 31] ! (m - 1)"

subsection \<open>Sample objects\<close>

text \<open>
  A receivable as \<open>ContaReceber.create\<close> leaves it when only the required attributes
  and the recurrence are given: the amounts other than the original one are at their
  default 0, \<open>valor_restante\<close> included, and the status is \<open>em_aberto\<close>.
\<close>

definition conta_exemplo :: conta_receber where
  "conta_exemplo =
     \<lparr>cr_id = 1, numero_documento = ''D1'',
      data_vencimento = \<lparr>ano = 2024, mes = 1, dia = 15\<rparr>, data_recebimento = None,
      valor_original = 100, valor_juros = 0, valor_multa = 0, valor_desconto = 0,
      valor_recebido = 0, valor_restante = 0, cr_status = Em_aberto, recorrente = True,
      periodicidade = Some Mensal, data_proximo_vencimento = None,
      numero_parcela = Some 1, total_parcelas = Some 12\<rparr>"

text \<open>
  A receivable of 0.11 of which 0.04 has been received, as read from the database.
\<close>

definition conta_centavos :: conta_receber where
  "conta_centavos =
     \<lparr>cr_id = 2, numero_documento = ''D2'',
      data_vencimento = \<lparr>ano = 2024, mes = 1, dia = 31\<rparr>, data_recebimento = None,
      valor_original = 11 / 100, valor_juros = 0, valor_multa = 0, valor_desconto = 0,
      valor_recebido = 4 / 100, valor_restante = 7 / 100,
      cr_status = Parcialmente_recebido, recorrente = True,
      periodicidade = Some Mensal, data_proximo_vencimento = None,
      numero_parcela = Some 1, total_parcelas = Some 12\<rparr>"

text \<open>A line of one unit at price 10, with no discount or surcharge and a unit cost of 0.\<close>

definition item_exemplo :: item_venda where
  "item_exemplo =
     \<lparr>quantidade = 1, preco_unitario = 10, desconto_percentual = 0, desconto_valor = 0,
      acrescimo_percentual = 0, acrescimo_valor = 0, item_valor_total = 0,
      custo_unitario = 0, margem_lucro = None\<rparr>"

text \<open>
  The issuer and the document of the specification's example (section 8): region 35,
  tax id 11222333000181, a standard invoice of series 1 and number 1 issued in January
  2024.
\<close>

definition empresa_exemplo :: empresa where
  "empresa_exemplo = \<lparr>codigo_uf = 35, cnpj = ''11222333000181''\<rparr>"

definition nota_exemplo :: nota_fiscal where
  "nota_exemplo =
     \<lparr>tipo_documento = Nfe, numero = 1, serie = 1, emissao_ano = 2024, emissao_mes = 1,
      nf_status = Em_digitacao, justificativa_cancelamento = None\<rparr>"

section \<open>Properties\<close>

lemma statusValidos_lookup:
  assumes "s \<in> set venda_status_enum"
  shows "\<exists>ps. map_of statusValidos s = Some ps \<and> set ps = spec_legal_set s"
  using assms by (auto simp: venda_status_enum_def statusValidos_def spec_legal_set_def)

subsection \<open>Sale status machine\<close>

lemma atualizarStatus_enum:
  assumes "venda_status v \<in> set venda_status_enum"
  shows "atualizarStatus t agora v =
     (if t \<in> spec_legal_set (venda_status v)
      then (Inr True,
            v\<lparr>venda_status := t,
              data_entrega_realizada :=
                (if t = ''entregue'' then Some agora else data_entrega_realizada v)\<rparr>)
      else (Inl IllegalTransitionError, v))"
proof -
  obtain ps where ps: "map_of statusValidos (venda_status v) = Some ps"
    and legal: "set ps = spec_legal_set (venda_status v)"
    using statusValidos_lookup [OF assms] by blast
  show ?thesis
    unfolding atualizarStatus_def ps legal [symmetric] by simp
qed

lemma spec_legal_set_terminal:
  "spec_legal_set ''entregue'' = {}" "spec_legal_set ''cancelada'' = {}"
  "''entregue'' \<notin> spec_legal_set ''pendente''"
  by (simp_all add: spec_legal_set_def)

text \<open>
  Claim C1. For a sale whose status is one of the seven values of the column, the
  transition to \<open>t\<close> succeeds exactly when \<open>t\<close> is in the legal set of the current status
  (then the status becomes \<open>t\<close>, and reaching \<open>entregue\<close> stamps the delivery time);
  otherwise it throws the illegal-transition error and the sale is as before. In
  particular \<open>pendente\<close> to \<open>entregue\<close> throws, and so does every transition from
  \<open>entregue\<close> or from \<open>cancelada\<close>.
\<close>

theorem sale_transition_table:
  assumes "venda_status v \<in> set venda_status_enum"
  shows "atualizarStatus t agora v =
     (if t \<in> spec_legal_set (venda_status v)
      then (Inr True,
            v\<lparr>venda_status := t,
              data_entrega_realizada :=
                (if t = ''entregue'' then Some agora else data_entrega_realizada v)\<rparr>)
      else (Inl IllegalTransitionError, v))
   \<and> atualizarStatus ''entregue'' agora (v\<lparr>venda_status := ''pendente''\<rparr>)
       = (Inl IllegalTransitionError, v\<lparr>venda_status := ''pendente''\<rparr>)
   \<and> atualizarStatus t agora (v\<lparr>venda_status := ''entregue''\<rparr>)
       = (Inl IllegalTransitionError, v\<lparr>venda_status := ''entregue''\<rparr>)
   \<and> atualizarStatus t agora (v\<lparr>venda_status := ''cancelada''\<rparr>)
       = (Inl IllegalTransitionError, v\<lparr>venda_status := ''cancelada''\<rparr>)"
proof -
  have a: "venda_status (v\<lparr>venda_status := ''pendente''\<rparr>) \<in> set venda_status_enum"
    and b: "venda_status (v\<lparr>venda_status := ''entregue''\<rparr>) \<in> set venda_status_enum"
    and c: "venda_status (v\<lparr>venda_status := ''cancelada''\<rparr>) \<in> set venda_status_enum"
    by (simp_all add: venda_status_enum_def)
  show ?thesis
    using atualizarStatus_enum [OF assms, of t agora]
      atualizarStatus_enum [OF a, of "''entregue''" agora]
      atualizarStatus_enum [OF b, of t agora]
      atualizarStatus_enum [OF c, of t agora]
    by (simp add: spec_legal_set_terminal)
qed

theorem sale_transition_table_witness:
  "venda_status \<lparr>venda_status = ''faturada'', data_entrega_realizada = None\<rparr>
      \<in> set venda_status_enum
   \<and> atualizarStatus ''entregue'' 1700000000000
        \<lparr>venda_status = ''faturada'', data_entrega_realizada = None\<rparr>
       = (Inr True, \<lparr>venda_status = ''entregue'', data_entrega_realizada = Some 1700000000000\<rparr>)
   \<and> atualizarStatus ''pendente'' 1700000000000
        \<lparr>venda_status = ''faturada'', data_entrega_realizada = None\<rparr>
       = (Inl IllegalTransitionError, \<lparr>venda_status = ''faturada'', data_entrega_realizada = None\<rparr>)"
proof -
  have h: "venda_status \<lparr>venda_status = ''faturada'', data_entrega_realizada = None\<rparr>
      \<in> set venda_status_enum"
    by (simp add: venda_status_enum_def)
  show ?thesis
    using h sale_transition_table [OF h, of "''entregue''" 1700000000000]
      sale_transition_table [OF h, of "''pendente''" 1700000000000]
    by (simp add: spec_legal_set_def)
qed

subsection \<open>Fiscal document cancellation\<close>

text \<open>
  Claim C4 as stated fails: a short justification on a document that is not authorized
  is answered by the invalid-state error, since the status is tested first.
\<close>

theorem cancel_short_justification_counterexample:
  "length ''erro'' < 15
   \<and> fst (cancelar (Some ''erro'')
        \<lparr>tipo_documento = Nfce, numero = 1, serie = 1, emissao_ano = 2024, emissao_mes = 1,
          nf_status = Nf_pendente, justificativa_cancelamento = None\<rparr>)
       = Inl InvalidStateError
   \<and> fst (cancelar (Some ''erro'')
        \<lparr>tipo_documento = Nfce, numero = 1, serie = 1, emissao_ano = 2024, emissao_mes = 1,
          nf_status = Nf_pendente, justificativa_cancelamento = None\<rparr>)
       \<noteq> Inl ValidationError"
  by (simp add: cancelar_def)

text \<open>
  Claim C4, amended. \<open>cancelar\<close> throws the invalid-state error unless the status is
  \<open>autorizada\<close>, whatever the justification; on an authorized document it throws the
  validation error when the justification is missing or shorter than 15 characters, and
  otherwise sets the status to \<open>cancelada\<close> and stores the justification. After a
  successful cancellation every further call throws the invalid-state error.
\<close>

theorem cancel_fiscal_document:
  "cancelar j n =
     (if nf_status n \<noteq> Autorizada then (Inl InvalidStateError, n)
      else if (case j of None \<Rightarrow> True | Some s \<Rightarrow> length s < 15)
        then (Inl ValidationError, n)
      else (Inr True, n\<lparr>nf_status := Nf_cancelada, justificativa_cancelamento := j\<rparr>))
   \<and> (fst (cancelar j n) = Inr True \<longrightarrow>
        cancelar j' (snd (cancelar j n)) = (Inl InvalidStateError, snd (cancelar j n)))"
  by (auto simp: cancelar_def split: option.splits)

theorem cancel_fiscal_document_witness:
  "cancelar (Some ''erro de digitacao'')
     \<lparr>tipo_documento = Nfe, numero = 7, serie = 1, emissao_ano = 2024, emissao_mes = 3,
       nf_status = Autorizada, justificativa_cancelamento = None\<rparr>
     = (Inr True,
        \<lparr>tipo_documento = Nfe, numero = 7, serie = 1, emissao_ano = 2024, emissao_mes = 3,
          nf_status = Nf_cancelada, justificativa_cancelamento = Some ''erro de digitacao''\<rparr>)
   \<and> cancelar (Some ''erro de digitacao'')
       (snd (cancelar (Some ''erro de digitacao'')
          \<lparr>tipo_documento = Nfe, numero = 7, serie = 1, emissao_ano = 2024, emissao_mes = 3,
            nf_status = Autorizada, justificativa_cancelamento = None\<rparr>))
     = (Inl InvalidStateError,
        \<lparr>tipo_documento = Nfe, numero = 7, serie = 1, emissao_ano = 2024, emissao_mes = 3,
          nf_status = Nf_cancelada, justificativa_cancelamento = Some ''erro de digitacao''\<rparr>)
   \<and> cancelar (Some ''curta'')
       \<lparr>tipo_documento = Nfe, numero = 7, serie = 1, emissao_ano = 2024, emissao_mes = 3,
         nf_status = Autorizada, justificativa_cancelamento = None\<rparr>
     = (Inl ValidationError,
        \<lparr>tipo_documento = Nfe, numero = 7, serie = 1, emissao_ano = 2024, emissao_mes = 3,
          nf_status = Autorizada, justificativa_cancelamento = None\<rparr>)"
proof -
  let ?n = "\<lparr>tipo_documento = Nfe, numero = 7, serie = 1, emissao_ano = 2024, emissao_mes = 3,
        nf_status = Autorizada, justificativa_cancelamento = None\<rparr>"
  let ?j = "Some ''erro de digitacao''"
  note t = cancel_fiscal_document [of ?j ?n ?j]
  have first: "cancelar ?j ?n
      = (Inr True, ?n\<lparr>nf_status := Nf_cancelada, justificativa_cancelamento := ?j\<rparr>)"
    using t [THEN conjunct1] by simp
  then have "fst (cancelar ?j ?n) = Inr True"
    by simp
  with t [THEN conjunct2]
  have second: "cancelar ?j (snd (cancelar ?j ?n)) = (Inl InvalidStateError, snd (cancelar ?j ?n))"
    by blast
  have third: "cancelar (Some ''curta'') ?n = (Inl ValidationError, ?n)"
    using cancel_fiscal_document [of "Some ''curta''" ?n, THEN conjunct1] by simp
  show ?thesis
    using first second third by simp
qed

subsection \<open>Stock movements\<close>

lemma estoque_atual_atualiza_status [simp]:
  "estoque_atual (atualiza_status_estoque p) = estoque_atual p"
  by (simp add: atualiza_status_estoque_def)

text \<open>
  Claim C6. An outbound movement (\<open>saida\<close>) of more than the current stock throws the
  insufficient-stock error and leaves the product, stock and status, as it was. An
  outbound movement of at most the current stock returns, and the stock afterwards is
  the stock before less exactly the quantity.
\<close>

theorem outbound_movement:
  "(estoque_atual p < qtd \<longrightarrow>
      atualizarEstoque qtd ''saida'' p = (Inl InsufficientStockError, p))
   \<and> (qtd \<le> estoque_atual p \<longrightarrow>
      fst (atualizarEstoque qtd ''saida'' p)
        = Inr \<lparr>oldStock = estoque_atual p, newStock = estoque_atual p - qtd,
               difference = - qtd\<rparr>
      \<and> estoque_atual (snd (atualizarEstoque qtd ''saida'' p)) = estoque_atual p - qtd)"
  by (simp add: atualizarEstoque_def Let_def)

theorem outbound_movement_witness:
  "estoque_atual \<lparr>estoque_atual = 5, produto_status = Em_promocao\<rparr> < 8
   \<and> atualizarEstoque 8 ''saida'' \<lparr>estoque_atual = 5, produto_status = Em_promocao\<rparr>
       = (Inl InsufficientStockError, \<lparr>estoque_atual = 5, produto_status = Em_promocao\<rparr>)
   \<and> 3 \<le> estoque_atual \<lparr>estoque_atual = 5, produto_status = Em_promocao\<rparr>
   \<and> fst (atualizarEstoque 3 ''saida'' \<lparr>estoque_atual = 5, produto_status = Em_promocao\<rparr>)
       = Inr \<lparr>oldStock = 5, newStock = 2, difference = - 3\<rparr>
   \<and> estoque_atual (snd (atualizarEstoque 3 ''saida''
         \<lparr>estoque_atual = 5, produto_status = Em_promocao\<rparr>)) = 2"
  using outbound_movement [of "\<lparr>estoque_atual = 5, produto_status = Em_promocao\<rparr>" 8]
    outbound_movement [of "\<lparr>estoque_atual = 5, produto_status = Em_promocao\<rparr>" 3]
  by simp

lemma atualizarEstoque_success:
  assumes "fst (atualizarEstoque qtd tipo p) = Inr m"
  shows "\<exists>q. snd (atualizarEstoque qtd tipo p)
            = atualiza_status_estoque (p\<lparr>estoque_atual := q\<rparr>)"
  using assms by (auto simp: atualizarEstoque_def Let_def split: if_splits)

text \<open>
  Claim C7. After every movement that returns, inbound or outbound and from any prior
  status, the status is \<open>esgotado\<close> exactly when the stock is at most zero. With a
  positive resulting stock a prior \<open>esgotado\<close> becomes \<open>ativo\<close> and every other prior
  status (\<open>ativo\<close>, \<open>inativo\<close>, \<open>em_promocao\<close>) is kept.
\<close>

theorem stock_status_invariant:
  assumes "fst (atualizarEstoque qtd tipo p) = Inr m"
  shows "(produto_status (snd (atualizarEstoque qtd tipo p)) = Esgotado
            \<longleftrightarrow> estoque_atual (snd (atualizarEstoque qtd tipo p)) \<le> 0)
   \<and> (0 < estoque_atual (snd (atualizarEstoque qtd tipo p)) \<longrightarrow>
        produto_status (snd (atualizarEstoque qtd tipo p))
          = (if produto_status p = Esgotado then Ativo else produto_status p))"
proof -
  obtain q where q: "snd (atualizarEstoque qtd tipo p)
      = atualiza_status_estoque (p\<lparr>estoque_atual := q\<rparr>)"
    using atualizarEstoque_success [OF assms] by blast
  show ?thesis
    unfolding q by (simp add: atualiza_status_estoque_def)
qed

theorem stock_status_invariant_witness:
  "fst (atualizarEstoque 4 ''entrada'' \<lparr>estoque_atual = 0, produto_status = Esgotado\<rparr>)
     = Inr \<lparr>oldStock = 0, newStock = 4, difference = 4\<rparr>
   \<and> snd (atualizarEstoque 4 ''entrada'' \<lparr>estoque_atual = 0, produto_status = Esgotado\<rparr>)
     = \<lparr>estoque_atual = 4, produto_status = Ativo\<rparr>
   \<and> fst (atualizarEstoque 2 ''saida'' \<lparr>estoque_atual = 2, produto_status = Inativo\<rparr>)
     = Inr \<lparr>oldStock = 2, newStock = 0, difference = - 2\<rparr>
   \<and> produto_status (snd (atualizarEstoque 2 ''saida''
        \<lparr>estoque_atual = 2, produto_status = Inativo\<rparr>)) = Esgotado
   \<and> fst (atualizarEstoque 1 ''saida'' \<lparr>estoque_atual = 2, produto_status = Inativo\<rparr>)
     = Inr \<lparr>oldStock = 2, newStock = 1, difference = - 1\<rparr>
   \<and> produto_status (snd (atualizarEstoque 1 ''saida''
        \<lparr>estoque_atual = 2, produto_status = Inativo\<rparr>)) = Inativo"
proof -
  have a: "fst (atualizarEstoque 4 ''entrada'' \<lparr>estoque_atual = 0, produto_status = Esgotado\<rparr>)
     = Inr \<lparr>oldStock = 0, newStock = 4, difference = 4\<rparr>"
    and b: "fst (atualizarEstoque 2 ''saida'' \<lparr>estoque_atual = 2, produto_status = Inativo\<rparr>)
     = Inr \<lparr>oldStock = 2, newStock = 0, difference = - 2\<rparr>"
    and c: "fst (atualizarEstoque 1 ''saida'' \<lparr>estoque_atual = 2, produto_status = Inativo\<rparr>)
     = Inr \<lparr>oldStock = 2, newStock = 1, difference = - 1\<rparr>"
    by (simp_all add: atualizarEstoque_def Let_def)
  have e: "estoque_atual (snd (atualizarEstoque 4 ''entrada''
        \<lparr>estoque_atual = 0, produto_status = Esgotado\<rparr>)) = 4"
    "estoque_atual (snd (atualizarEstoque 2 ''saida''
        \<lparr>estoque_atual = 2, produto_status = Inativo\<rparr>)) = 0"
    "estoque_atual (snd (atualizarEstoque 1 ''saida''
        \<lparr>estoque_atual = 2, produto_status = Inativo\<rparr>)) = 1"
    by (simp_all add: atualizarEstoque_def Let_def)
  have "snd (atualizarEstoque 4 ''entrada'' \<lparr>estoque_atual = 0, produto_status = Esgotado\<rparr>)
     = \<lparr>estoque_atual = 4, produto_status = Ativo\<rparr>"
    using stock_status_invariant [OF a] e(1)
    by (cases "snd (atualizarEstoque 4 ''entrada''
          \<lparr>estoque_atual = 0, produto_status = Esgotado\<rparr>)") simp
  then show ?thesis
    using a b c stock_status_invariant [OF b] stock_status_invariant [OF c] e
    by simp
qed

subsection \<open>Double-precision arithmetic\<close>

lemma floor_rat_numeral:
  "\<lfloor>numeral a / numeral b :: rat\<rfloor> = numeral a div numeral b"
  "\<lfloor>- (numeral a / numeral b) :: rat\<rfloor> = - numeral a div numeral b"
  "\<lfloor>1 / numeral b :: rat\<rfloor> = 1 div numeral b"
  "\<lfloor>- (1 / numeral b) :: rat\<rfloor> = - 1 div numeral b"
proof -
  show "\<lfloor>numeral a / numeral b :: rat\<rfloor> = numeral a div numeral b"
    by (metis floor_divide_of_int_eq of_int_numeral)
  show "\<lfloor>- (numeral a / numeral b) :: rat\<rfloor> = - numeral a div numeral b"
    by (metis divide_minus_left floor_divide_of_int_eq of_int_neg_numeral of_int_numeral)
  show "\<lfloor>1 / numeral b :: rat\<rfloor> = 1 div numeral b"
    by (metis floor_divide_of_int_eq of_int_1 of_int_numeral)
  show "\<lfloor>- (1 / numeral b) :: rat\<rfloor> = - 1 div numeral b"
    by (metis divide_minus_left floor_divide_of_int_eq of_int_1 of_int_minus of_int_numeral)
qed

lemmas double_eval =
  to_double_def floor_log2_def pow2_def round_half_even_def bit_length.simps Let_def
  floor_rat_numeral ceiling_def

lemma to_double_0 [simp]: "to_double 0 = 0"
  by (simp add: to_double_def)

lemma to_double_inteiros:
  "to_double 100 = 100" "to_double 250 = 250" "to_double 40 = 40" "to_double 60 = 60"
  "to_double 30 = 30" "to_double 70 = 70"
  by (simp_all add: double_eval)

lemma bit_length_bounds:
  assumes "0 < n"
  shows "2 ^ (bit_length n - 1) \<le> n \<and> n < 2 ^ bit_length n"
  using assms
proof (induction n rule: bit_length.induct)
  case (1 n)
  show ?case
  proof (cases "n div 2 = 0")
    case True
    with "1.prems" have "n = 1"
      by (simp add: div_eq_0_iff)
    then show ?thesis
      by (simp add: bit_length.simps)
  next
    case False
    then have pos: "0 < n div 2"
      by simp
    have "n \<noteq> 0"
      using "1.prems" by simp
    from "1.IH" [OF this pos]
    have lo: "2 ^ (bit_length (n div 2) - 1) \<le> n div 2" and hi: "n div 2 < 2 ^ bit_length (n div 2)"
      by simp_all
    have b: "bit_length n = Suc (bit_length (n div 2))"
      using \<open>n \<noteq> 0\<close> by (subst bit_length.simps) simp
    have p: "0 < bit_length (n div 2)"
      using pos by (subst bit_length.simps) simp
    have "2 * 2 ^ (bit_length (n div 2) - 1) \<le> 2 * (n div 2)"
      using lo by simp
    moreover have "2 * 2 ^ (bit_length (n div 2) - 1) = (2::nat) ^ bit_length (n div 2)"
      using p by (cases "bit_length (n div 2)") simp_all
    ultimately have l: "2 ^ bit_length (n div 2) \<le> n"
      by (metis le_trans mult.commute div_times_less_eq_dividend)
    have "n < 2 * (n div 2 + 1)"
      by (simp add: mult.commute)
    moreover have "n div 2 + 1 \<le> 2 ^ bit_length (n div 2)"
      using hi by simp
    ultimately have u: "n < 2 * 2 ^ bit_length (n div 2)"
      by (meson less_le_trans mult_le_mono2)
    show ?thesis
      unfolding b using l u by simp
  qed
qed

lemma bit_length_bounds_rat:
  assumes "0 < n"
  shows "(2::rat) ^ (bit_length n - 1) \<le> of_nat n" "(of_nat n :: rat) + 1 \<le> 2 ^ bit_length n"
proof -
  note b = bit_length_bounds [OF assms]
  have "(of_nat (2 ^ (bit_length n - 1)) :: rat) \<le> of_nat n"
    using b [THEN conjunct1] by (simp only: of_nat_le_iff)
  then show "(2::rat) ^ (bit_length n - 1) \<le> of_nat n"
    by simp
  have "n + 1 \<le> 2 ^ bit_length n"
    using b [THEN conjunct2] by simp
  then have "(of_nat (n + 1) :: rat) \<le> of_nat (2 ^ bit_length n)"
    by (simp only: of_nat_le_iff)
  then show "(of_nat n :: rat) + 1 \<le> 2 ^ bit_length n"
    by simp
qed

lemma bit_length_pos:
  assumes "0 < n"
  shows "0 < bit_length n"
  using assms by (subst bit_length.simps) simp

lemma floor_log2_bounds:
  assumes "0 < x"
  shows "pow2 (floor_log2 x) \<le> x \<and> x < pow2 (floor_log2 x + 1)"
proof (cases "1 \<le> x")
  case True
  define n where "n = nat \<lfloor>x\<rfloor>"
  from True have n: "0 < n" and fl: "\<lfloor>x\<rfloor> = int n"
    by (simp_all add: n_def)
  note b = bit_length_bounds_rat [OF n]
  note p = bit_length_pos [OF n]
  have e: "floor_log2 x = int (bit_length n - 1)"
    using True p by (simp add: floor_log2_def n_def of_nat_diff)
  have e1: "floor_log2 x + 1 = int (bit_length n)"
    unfolding e using p by simp
  have nx: "(of_nat n :: rat) \<le> x" "x < of_nat n + 1"
    using fl by linarith+
  have pe: "pow2 (floor_log2 x) = 2 ^ (bit_length n - 1)"
    unfolding e by (simp add: pow2_def)
  have pe1: "pow2 (floor_log2 x + 1) = 2 ^ bit_length n"
    unfolding e1 by (simp add: pow2_def)
  have lo: "pow2 (floor_log2 x) \<le> x"
    unfolding pe by (rule order_trans [OF b(1) nx(1)])
  have hi: "x < pow2 (floor_log2 x + 1)"
    unfolding pe1 by (rule less_le_trans [OF nx(2) b(2)])
  show ?thesis
    using lo hi ..
next
  case False
  define y where "y = 1 / x"
  from False assms have y: "1 < y" and x: "x = 1 / y"
    by (simp_all add: y_def)
  define k where "k = nat (\<lceil>y\<rceil> - 1)"
  have "2 \<le> \<lceil>y\<rceil>"
    using y by linarith
  then have c: "\<lceil>y\<rceil> = int k + 1" and k: "0 < k"
    by (simp_all add: k_def)
  note b = bit_length_bounds_rat [OF k]
  note p = bit_length_pos [OF k]
  have e: "floor_log2 x = - int (bit_length k)"
    using False by (simp add: floor_log2_def k_def y_def)
  have e1: "floor_log2 x + 1 = - int (bit_length k - 1)"
    unfolding e using p by (simp add: of_nat_diff)
  have ky: "(of_nat k :: rat) < y" "y \<le> of_nat k + 1"
    using c by linarith+
  have yu: "y \<le> 2 ^ bit_length k"
    by (rule order_trans [OF ky(2) b(2)])
  have yl: "2 ^ (bit_length k - 1) < y"
    by (rule le_less_trans [OF b(1) ky(1)])
  have pe: "pow2 (floor_log2 x) = 1 / 2 ^ bit_length k"
    unfolding e using p by (simp add: pow2_def)
  have pe1: "pow2 (floor_log2 x + 1) = 1 / 2 ^ (bit_length k - 1)"
    unfolding e1 by (cases "bit_length k - 1 = 0") (simp_all add: pow2_def)
  have lo: "pow2 (floor_log2 x) \<le> x"
    unfolding pe using yu y by (simp add: x field_simps)
  have hi: "x < pow2 (floor_log2 x + 1)"
    unfolding pe1 using yl y by (simp add: x field_simps)
  show ?thesis
    using lo hi ..
qed

lemma round_half_even_nearest: "\<bar>of_int (round_half_even x) - x\<bar> \<le> 1 / 2"
proof -
  have "of_int \<lfloor>x\<rfloor> \<le> x" "x < of_int \<lfloor>x\<rfloor> + 1"
    by linarith+
  then show ?thesis
    by (auto simp: round_half_even_def Let_def)
qed

text \<open>Known doubles: 0.1, the sum 0.1 + 0.2, and a tie that goes to the even significand.\<close>

lemma to_double_known:
  "to_double (1 / 10) = 3602879701896397 / 36028797018963968"
  "js_plus (to_double (1 / 10)) (to_double (2 / 10)) = 1351079888211149 / 4503599627370496"
  "to_double 9007199254740993 = 9007199254740992"
  "to_double 9007199254740995 = 9007199254740996"
  by (simp_all add: js_plus_def double_eval)

subsection \<open>Receivables: settlement\<close>

lemma calcularValorRestante_eq:
  "calcularValorRestante c
     = (valor_restante_atual c, c\<lparr>valor_restante := valor_restante_atual c\<rparr>)"
  by (simp add: valor_restante_atual_def calcularValorRestante_def Let_def)

lemma valor_restante_atual_eq:
  "valor_restante_atual c = js_minus (valorTotal c) (parseFloat (valor_recebido c))"
  by (simp add: valor_restante_atual_def calcularValorRestante_def Let_def)

lemma valorTotal_update [simp]:
  "valorTotal (c\<lparr>valor_restante := r\<rparr>) = valorTotal c"
  "valorTotal (c\<lparr>cr_status := s\<rparr>) = valorTotal c"
  "valorTotal (c\<lparr>data_recebimento := d\<rparr>) = valorTotal c"
  "valorTotal (c\<lparr>valor_recebido := v\<rparr>) = valorTotal c"
  by (simp_all add: valorTotal_def)

lemma spec_remaining_update [simp]:
  "spec_remaining (c\<lparr>valor_restante := r\<rparr>) = spec_remaining c"
  "spec_remaining (c\<lparr>cr_status := s\<rparr>) = spec_remaining c"
  "spec_remaining (c\<lparr>data_recebimento := d\<rparr>) = spec_remaining c"
  "spec_remaining (c\<lparr>valor_recebido := v\<rparr>) = spec_remaining c + valor_recebido c - v"
  by (simp_all add: spec_remaining_def)

lemma registrarRecebimento_rejected:
  assumes "valor_restante_atual c < to_double valor"
  shows "registrarRecebimento valor d c
     = (Inl OverpaymentError, c\<lparr>valor_restante := valor_restante_atual c\<rparr>)"
  using assms by (simp add: registrarRecebimento_def calcularValorRestante_eq)

lemma registrarRecebimento_accepted:
  assumes "to_double valor \<le> valor_restante_atual c"
  shows "snd (registrarRecebimento valor d c)
     = c\<lparr>valor_recebido := js_plus (parseFloat (valor_recebido c)) (parseFloat valor),
          data_recebimento := d,
          valor_restante :=
            js_minus (valorTotal c)
              (parseFloat (js_plus (parseFloat (valor_recebido c)) (parseFloat valor))),
          cr_status :=
            (if js_minus (valorTotal c)
                  (parseFloat (js_plus (parseFloat (valor_recebido c)) (parseFloat valor))) = 0
             then Recebido
             else if 0 < js_plus (parseFloat (valor_recebido c)) (parseFloat valor)
             then Parcialmente_recebido
             else cr_status c)\<rparr>"
    and "\<exists>r. fst (registrarRecebimento valor d c) = Inr r
        \<and> status_ret r = cr_status (snd (registrarRecebimento valor d c))
        \<and> valorRecebido r = valor_recebido (snd (registrarRecebimento valor d c))
        \<and> valorRestante r = valor_restante (snd (registrarRecebimento valor d c))"
  using assms
  by (simp_all add: registrarRecebimento_def calcularValorRestante_eq valor_restante_atual_eq
      Let_def)

lemma valor_restante_atual_conta_centavos:
  "valor_restante_atual conta_centavos = 1261007895663739 / 18014398509481984"
  by (simp add: valor_restante_atual_eq valorTotal_def js_minus_def js_plus_def parseFloat_def
      conta_centavos_def double_eval)

lemma valor_restante_atual_conta_exemplo: "valor_restante_atual conta_exemplo = 100"
  by (simp add: valor_restante_atual_eq valorTotal_def js_minus_def js_plus_def parseFloat_def
      conta_exemplo_def to_double_inteiros)

lemma spec_remaining_conta_exemplo: "spec_remaining conta_exemplo = 100"
  by (simp add: spec_remaining_def conta_exemplo_def)


lemma no_rounding_remaining:
  assumes "no_rounding c valor"
  shows "valorTotal c = valor_original c + valor_juros c + valor_multa c - valor_desconto c"
    and "valor_restante_atual c = spec_remaining c"
    and "js_plus (parseFloat (valor_recebido c)) (parseFloat valor) = valor_recebido c + valor"
    and "to_double valor = valor"
  using assms
  by (simp_all add: no_rounding_def valor_restante_atual_eq valorTotal_def js_minus_def
      js_plus_def parseFloat_def spec_remaining_def)


lemma registrarRecebimento_conta_exemplo_40:
  "snd (registrarRecebimento 40 d conta_exemplo)
     = conta_exemplo\<lparr>valor_recebido := 40, data_recebimento := d, valor_restante := 60,
         cr_status := Parcialmente_recebido\<rparr>"
proof -
  have le: "to_double 40 \<le> valor_restante_atual conta_exemplo"
    by (simp add: valor_restante_atual_conta_exemplo to_double_inteiros)
  have t: "valorTotal conta_exemplo = 100"
    and r: "js_plus (parseFloat (valor_recebido conta_exemplo)) (parseFloat 40) = 40"
    by (simp_all add: valorTotal_def js_minus_def js_plus_def parseFloat_def conta_exemplo_def
        to_double_inteiros)
  have m: "js_minus 100 (parseFloat 40) = 60"
    by (simp add: js_minus_def parseFloat_def to_double_inteiros)
  show ?thesis
    unfolding registrarRecebimento_accepted(1) [OF le] t r m
    by (simp add: conta_exemplo_def)
qed

lemma no_rounding_conta_exemplo: "no_rounding conta_exemplo 100"
  by (simp add: no_rounding_def conta_exemplo_def to_double_inteiros)


text \<open>
  Claim C10. Every accepted settlement, a partial one included, stores the supplied
  payment date in \<open>data_recebimento\<close> over whatever was there. So an entry can hold a
  settlement date while it is only partially settled, and a later partial payment
  replaces the stored date.
\<close>

theorem settlement_date_overwritten:
  "(to_double valor \<le> valor_restante_atual c \<longrightarrow>
      data_recebimento (snd (registrarRecebimento valor d c)) = d)
   \<and> (\<exists>c' v t. data_recebimento (snd (registrarRecebimento v (Some t) c')) = Some t
        \<and> cr_status (snd (registrarRecebimento v (Some t) c')) = Parcialmente_recebido
        \<and> 0 < spec_remaining (snd (registrarRecebimento v (Some t) c')))"
proof (intro conjI impI)
  assume le: "to_double valor \<le> valor_restante_atual c"
  show "data_recebimento (snd (registrarRecebimento valor d c)) = d"
    by (simp add: registrarRecebimento_accepted(1) [OF le])
next
  have "data_recebimento (snd (registrarRecebimento 40 (Some 0) conta_exemplo)) = Some 0
        \<and> cr_status (snd (registrarRecebimento 40 (Some 0) conta_exemplo)) = Parcialmente_recebido
        \<and> 0 < spec_remaining (snd (registrarRecebimento 40 (Some 0) conta_exemplo))"
    unfolding registrarRecebimento_conta_exemplo_40
    by (simp add: spec_remaining_conta_exemplo) (simp add: conta_exemplo_def)
  then show "\<exists>c' v t. data_recebimento (snd (registrarRecebimento v (Some t) c')) = Some t
        \<and> cr_status (snd (registrarRecebimento v (Some t) c')) = Parcialmente_recebido
        \<and> 0 < spec_remaining (snd (registrarRecebimento v (Some t) c'))"
    by blast
qed

theorem settlement_date_overwritten_witness:
  "to_double 40 \<le> valor_restante_atual conta_exemplo
   \<and> data_recebimento (snd (registrarRecebimento 40 (Some 1705276800000) conta_exemplo))
       = Some 1705276800000
   \<and> cr_status (snd (registrarRecebimento 40 (Some 1705276800000) conta_exemplo))
       = Parcialmente_recebido
   \<and> to_double 30
       \<le> valor_restante_atual (snd (registrarRecebimento 40 (Some 1705276800000) conta_exemplo))
   \<and> data_recebimento (snd (registrarRecebimento 30 (Some 1707955200000)
        (snd (registrarRecebimento 40 (Some 1705276800000) conta_exemplo))))
       = Some 1707955200000
   \<and> cr_status (snd (registrarRecebimento 30 (Some 1707955200000)
        (snd (registrarRecebimento 40 (Some 1705276800000) conta_exemplo))))
       = Parcialmente_recebido"
proof -
  let ?c1 = "snd (registrarRecebimento 40 (Some 1705276800000) conta_exemplo)"
  have le: "to_double 40 \<le> valor_restante_atual conta_exemplo"
    by (simp add: valor_restante_atual_conta_exemplo to_double_inteiros)
  note c1 = registrarRecebimento_conta_exemplo_40 [of "Some 1705276800000"]
  have t1: "valorTotal ?c1 = 100" and v1: "valor_recebido ?c1 = 40"
    unfolding c1
    by (simp_all add: valorTotal_def js_minus_def js_plus_def parseFloat_def conta_exemplo_def
        to_double_inteiros)
  have r1: "valor_restante_atual ?c1 = 60"
    unfolding valor_restante_atual_eq t1 v1
    by (simp add: js_minus_def parseFloat_def to_double_inteiros)
  have le1: "to_double 30 \<le> valor_restante_atual ?c1"
    unfolding r1 by (simp add: to_double_inteiros)
  have s1: "cr_status ?c1 = Parcialmente_recebido"
    unfolding c1 by simp
  have p: "js_plus (parseFloat 40) (parseFloat 30) = 70" "js_minus 100 (parseFloat 70) = 30"
    by (simp_all add: js_plus_def js_minus_def parseFloat_def to_double_inteiros)
  have s2: "cr_status (snd (registrarRecebimento 30 (Some 1707955200000) ?c1))
      = Parcialmente_recebido"
    unfolding registrarRecebimento_accepted(1) [OF le1] t1 v1 p
    by simp
  from settlement_date_overwritten [of 40 conta_exemplo "Some 1705276800000", THEN conjunct1] le
  have d1: "data_recebimento ?c1 = Some 1705276800000"
    by blast
  from settlement_date_overwritten [of 30 ?c1 "Some 1707955200000", THEN conjunct1] le1
  have d2: "data_recebimento (snd (registrarRecebimento 30 (Some 1707955200000) ?c1))
      = Some 1707955200000"
    by blast
  show ?thesis
    using le d1 s1 le1 d2 s2 by (intro conjI)
qed

subsection \<open>Receivables: late charges\<close>

lemma calcularJurosMulta_eq:
  "calcularJurosMulta dataBase hoje c =
     (if date_to_ms (data_vencimento c) < hoje \<and> cr_status c \<noteq> Recebido
      then (\<lparr>juros = valor_original c * (33 / 100000)
                 * of_int ((dataBase - date_to_ms (data_vencimento c)) div 86400000),
              multa = valor_original c * (2 / 100)\<rparr>,
            c\<lparr>valor_multa := valor_original c * (2 / 100),
              valor_juros := valor_original c * (33 / 100000)
                 * of_int ((dataBase - date_to_ms (data_vencimento c)) div 86400000)\<rparr>)
      else (\<lparr>juros = 0, multa = 0\<rparr>, c))"
  by (simp add: calcularJurosMulta_def estaVencida_def Let_def)

lemma date_to_ms_conta_exemplo: "date_to_ms (data_vencimento conta_exemplo) = 1705276800000"
  by (simp add: conta_exemplo_def date_to_ms_def days_from_civil_def)

text \<open>
  Claim C8 as stated fails: whether charges accrue is decided by \<open>estaVencida()\<close>, which
  compares the due date with the clock and never with the \<open>asOf\<close> argument. The sample
  entry is due 2024-01-15; called on 2024-01-20 with \<open>asOf\<close> 2024-01-10, before the due
  date, the method is no no-op: it stores a penalty of 2 and an interest of -0.165.
\<close>

theorem late_charges_counterexample:
  "\<not> date_to_ms (data_vencimento conta_exemplo) < 1704844800000
   \<and> calcularJurosMulta 1704844800000 1705708800000 conta_exemplo
     = (\<lparr>juros = - (33 / 200), multa = 2\<rparr>,
        conta_exemplo\<lparr>valor_multa := 2, valor_juros := - (33 / 200)\<rparr>)
   \<and> conta_exemplo\<lparr>valor_multa := 2, valor_juros := - (33 / 200)\<rparr> \<noteq> conta_exemplo"
  by (simp add: calcularJurosMulta_eq date_to_ms_conta_exemplo) (simp add: conta_exemplo_def)

text \<open>
  Claim C8, amended. \<open>calcularJurosMulta(asOf)\<close> returns zero interest and zero penalty
  and changes nothing unless the due date is before the clock of the call and the status
  is not \<open>recebido\<close>. In that case it stores (and does not add to what is stored) the
  penalty original * 0.02 and the interest original * 0.00033 * daysLate, where
  daysLate is the whole number of days from the due date to \<open>asOf\<close>, rounded down. A
  second call with the same \<open>asOf\<close>, at the same or a later clock, stores what a single
  call at that clock stores.
\<close>

theorem late_charges:
  "calcularJurosMulta dataBase hoje c =
     (if date_to_ms (data_vencimento c) < hoje \<and> cr_status c \<noteq> Recebido
      then (\<lparr>juros = valor_original c * (33 / 100000)
                 * of_int ((dataBase - date_to_ms (data_vencimento c)) div 86400000),
              multa = valor_original c * (2 / 100)\<rparr>,
            c\<lparr>valor_multa := valor_original c * (2 / 100),
              valor_juros := valor_original c * (33 / 100000)
                 * of_int ((dataBase - date_to_ms (data_vencimento c)) div 86400000)\<rparr>)
      else (\<lparr>juros = 0, multa = 0\<rparr>, c))
   \<and> (hoje \<le> hoje' \<longrightarrow>
        snd (calcularJurosMulta dataBase hoje' (snd (calcularJurosMulta dataBase hoje c)))
          = snd (calcularJurosMulta dataBase hoje' c))"
  by (simp add: calcularJurosMulta_eq)

theorem late_charges_witness:
  "calcularJurosMulta 1706140800000 1706140800000 conta_exemplo
     = (\<lparr>juros = 33 / 100, multa = 2\<rparr>,
        conta_exemplo\<lparr>valor_multa := 2, valor_juros := 33 / 100\<rparr>)
   \<and> (1706140800000::int) \<le> 1706227200000
   \<and> snd (calcularJurosMulta 1706140800000 1706227200000
        (snd (calcularJurosMulta 1706140800000 1706140800000 conta_exemplo)))
     = conta_exemplo\<lparr>valor_multa := 2, valor_juros := 33 / 100\<rparr>
   \<and> calcularJurosMulta 1706140800000 1705276800000 conta_exemplo
     = (\<lparr>juros = 0, multa = 0\<rparr>, conta_exemplo)"
proof -
  have o: "valor_original conta_exemplo = 100" and s: "cr_status conta_exemplo = Em_aberto"
    by (simp_all add: conta_exemplo_def)
  note t = late_charges [of 1706140800000 1706140800000 conta_exemplo 1706227200000]
  have one: "calcularJurosMulta 1706140800000 1706140800000 conta_exemplo
     = (\<lparr>juros = 33 / 100, multa = 2\<rparr>,
        conta_exemplo\<lparr>valor_multa := 2, valor_juros := 33 / 100\<rparr>)"
    using t [THEN conjunct1] by (simp add: date_to_ms_conta_exemplo o s)
  have later: "snd (calcularJurosMulta 1706140800000 1706227200000 conta_exemplo)
     = conta_exemplo\<lparr>valor_multa := 2, valor_juros := 33 / 100\<rparr>"
    using late_charges [of 1706140800000 1706227200000 conta_exemplo, THEN conjunct1]
    by (simp add: date_to_ms_conta_exemplo o s)
  have two: "snd (calcularJurosMulta 1706140800000 1706227200000
        (snd (calcularJurosMulta 1706140800000 1706140800000 conta_exemplo)))
     = conta_exemplo\<lparr>valor_multa := 2, valor_juros := 33 / 100\<rparr>"
    using t [THEN conjunct2] later by simp
  have three: "calcularJurosMulta 1706140800000 1705276800000 conta_exemplo
     = (\<lparr>juros = 0, multa = 0\<rparr>, conta_exemplo)"
    using late_charges [of 1706140800000 1705276800000 conta_exemplo, THEN conjunct1]
    by (simp add: date_to_ms_conta_exemplo)
  show ?thesis
    using one two three by simp
qed

subsection \<open>Receivables: recurrence\<close>

lemma days_in_month_table:
  assumes "1 \<le> m" "m \<le> 12"
  shows "days_in_month y m = spec_month_length y m"
proof -
  from assms have "m = 1 \<or> m = 2 \<or> m = 3 \<or> m = 4 \<or> m = 5 \<or> m = 6 \<or> m = 7 \<or> m = 8
      \<or> m = 9 \<or> m = 10 \<or> m = 11 \<or> m = 12"
    by arith
  then show ?thesis
    by (elim disjE) (auto simp: days_in_month_def leap_year_def spec_month_length_def)
qed

lemma spec_month_length_ge_28:
  assumes "1 \<le> m" "m \<le> 12"
  shows "28 \<le> spec_month_length y m"
  using assms unfolding days_in_month_table [OF assms, symmetric]
  by (simp add: days_in_month_def)

lemma setMonth_month_count:
  assumes "1 \<le> mes d" "mes d \<le> 12"
  shows "setMonth (getMonth d + k) d =
     (if dia d \<le> days_in_month ((12 * ano d + int (mes d) - 1 + int k) div 12)
                    (nat ((12 * ano d + int (mes d) - 1 + int k) mod 12) + 1)
      then \<lparr>ano = (12 * ano d + int (mes d) - 1 + int k) div 12,
            mes = nat ((12 * ano d + int (mes d) - 1 + int k) mod 12) + 1,
            dia = dia d\<rparr>
      else \<lparr>ano = (12 * ano d + int (mes d) - 1 + int k + 1) div 12,
            mes = nat ((12 * ano d + int (mes d) - 1 + int k + 1) mod 12) + 1,
            dia = dia d - days_in_month ((12 * ano d + int (mes d) - 1 + int k) div 12)
                    (nat ((12 * ano d + int (mes d) - 1 + int k) mod 12) + 1)\<rparr>)"
proof -
  define j where "j = mes d - 1 + k"
  have t: "12 * ano d + int (mes d) - 1 + int k = 12 * ano d + int j"
    using assms by (simp add: j_def)
  have y: "(12 * ano d + int j) div 12 = ano d + int (j div 12)"
    by (simp add: zdiv_int)
  have m: "nat ((12 * ano d + int j) mod 12) = j mod 12"
  proof -
    have "(12 * ano d + int j) mod 12 = int (j mod 12)"
      by (simp add: zmod_int)
    then show ?thesis
      by (simp del: of_nat_mod)
  qed
  have e: "12 * ano d + int j + 1 = int (j + 1) + 12 * ano d"
    by simp
  have y': "(12 * ano d + int j + 1) div 12
      = (if j mod 12 + 1 = 12 then ano d + int (j div 12) + 1 else ano d + int (j div 12))"
  proof -
    have "(12 * ano d + int j + 1) div 12 = ano d + int ((j + 1) div 12)"
      unfolding e by (simp only: div_mult_self2 zdiv_int) simp
    moreover have "(j + 1) div 12 = (if j mod 12 + 1 = 12 then j div 12 + 1 else j div 12)"
      by (simp add: div_Suc mod_Suc)
    ultimately show ?thesis
      by simp
  qed
  have m': "nat ((12 * ano d + int j + 1) mod 12) + 1
      = (if j mod 12 + 1 = 12 then 1 else j mod 12 + 1 + 1)"
  proof -
    have "(12 * ano d + int j + 1) mod 12 = int ((j + 1) mod 12)"
      unfolding e by (simp only: mod_mult_self2 zmod_int) simp
    then have "nat ((12 * ano d + int j + 1) mod 12) = (j + 1) mod 12"
      by (simp del: of_nat_mod)
    moreover have "(j + 1) mod 12 = (if j mod 12 + 1 = 12 then 0 else j mod 12 + 1)"
      by (simp add: mod_Suc)
    ultimately show ?thesis
      by simp
  qed
  show ?thesis
    unfolding setMonth_def getMonth_def t j_def [symmetric] Let_def y m y' m'
    by simp
qed

lemma mes_spec_add_months: "1 \<le> mes (spec_add_months k d)" "mes (spec_add_months k d) \<le> 12"
proof -
  have "0 \<le> (12 * ano d + int (mes d) - 1 + int k) mod 12"
    "(12 * ano d + int (mes d) - 1 + int k) mod 12 < 12"
    by simp_all
  then show "1 \<le> mes (spec_add_months k d)" "mes (spec_add_months k d) \<le> 12"
    by (simp_all add: spec_add_months_def)
qed

lemma spec_add_months_next:
  "spec_add_months 1 (spec_add_months k d\<lparr>dia := x\<rparr>)
     = \<lparr>ano = (12 * ano d + int (mes d) - 1 + int k + 1) div 12,
        mes = nat ((12 * ano d + int (mes d) - 1 + int k + 1) mod 12) + 1,
        dia = x\<rparr>"
proof -
  define t where "t = 12 * ano d + int (mes d) - 1 + int k"
  have "0 \<le> t mod 12"
    by simp
  then have "12 * (t div 12) + int (nat (t mod 12) + 1) - 1 + int 1 = t + 1"
    by simp
  then show ?thesis
    by (simp add: spec_add_months_def t_def [symmetric])
qed

lemma setMonth_spec:
  assumes "1 \<le> mes d" "mes d \<le> 12"
  shows "setMonth (getMonth d + k) d =
     (if dia d \<le> spec_month_length (ano (spec_add_months k d)) (mes (spec_add_months k d))
      then spec_add_months k d
      else spec_add_months 1
             (spec_add_months k d
                \<lparr>dia := dia d - spec_month_length (ano (spec_add_months k d))
                                 (mes (spec_add_months k d))\<rparr>))"
proof -
  have l: "days_in_month ((12 * ano d + int (mes d) - 1 + int k) div 12)
        (nat ((12 * ano d + int (mes d) - 1 + int k) mod 12) + 1)
      = spec_month_length (ano (spec_add_months k d)) (mes (spec_add_months k d))"
    using days_in_month_table [OF mes_spec_add_months, of "ano (spec_add_months k d)" k d]
    by (simp add: spec_add_months_def)
  show ?thesis
    unfolding setMonth_month_count [OF assms] l spec_add_months_next
    by (simp add: spec_add_months_def)
qed

text \<open>
  Claim C9 as stated fails in two places. In a process west of UTC the due date comes
  out a day early: at UTC-3 the monthly entry due 2024-01-15 yields an entry due
  2024-02-14. And a due date on a day that the month reached does not have is not moved
  by the month count alone: at UTC the monthly entry due 2024-01-31 yields an entry due
  2024-03-02.
\<close>

theorem next_recurrence_counterexample:
  "recorrente conta_exemplo \<and> periodicidade conta_exemplo = Some Mensal
   \<and> data_vencimento conta_exemplo = \<lparr>ano = 2024, mes = 1, dia = 15\<rparr>
   \<and> fst (gerarProximaRecorrencia (- 180) 3 conta_exemplo)
     = Inr (conta_exemplo\<lparr>cr_id := 3,
              data_vencimento := \<lparr>ano = 2024, mes = 2, dia = 14\<rparr>,
              valor_restante := 100\<rparr>)
   \<and> recorrente conta_centavos \<and> periodicidade conta_centavos = Some Mensal
   \<and> data_vencimento conta_centavos = \<lparr>ano = 2024, mes = 1, dia = 31\<rparr>
   \<and> data_vencimento (projr (fst (gerarProximaRecorrencia 0 3 conta_centavos)))
     = \<lparr>ano = 2024, mes = 3, dia = 2\<rparr>
   \<and> spec_add_months 1 \<lparr>ano = 2024, mes = 1, dia = 31\<rparr> = \<lparr>ano = 2024, mes = 2, dia = 31\<rparr>"
  by (simp add: gerarProximaRecorrencia_def conta_exemplo_def conta_centavos_def local_date_def
      prev_day_def setMonth_def getMonth_def days_in_month_def leap_year_def Let_def
      spec_add_months_def)

text \<open>
  Claim C9, amended. In a process whose time zone is UTC or east of it, for a recurring
  entry (the flag set and a periodicity given) \<open>gerarProximaRecorrencia\<close> creates an
  entry cloned from it, with nothing received, \<open>valor_restante\<close> equal to the original
  amount, status \<open>em_aberto\<close> and no settlement date. Its due date is the current due date
  with the month count advanced by the periodicity's number of months (monthly 1,
  bimonthly 2, quarterly 3, semiannual 6, annual 12) and the same day of the month, when
  the month reached has that day, as it always has for the days 1 to 28; a monthly entry
  due 2024-01-15 yields an entry due 2024-02-15. When the month reached is shorter than
  the day, the due date is in the month after it, on the day left after taking the
  length of the month reached. For an entry whose recurrence is not set the method
  throws the not-recurring error, in every time zone. The due date is a calendar date
  with a month from 1 to 12.
\<close>

theorem next_recurrence:
  assumes "0 \<le> fuso" "1 \<le> mes (data_vencimento c)" "mes (data_vencimento c) \<le> 12"
  shows "(recorrente c \<and> periodicidade c = Some p \<longrightarrow>
      gerarProximaRecorrencia fuso novo_id c
        = (Inr (c\<lparr>cr_id := novo_id,
                  data_vencimento :=
                    (if dia (data_vencimento c)
                        \<le> spec_month_length
                            (ano (spec_add_months (periodos p) (data_vencimento c)))
                            (mes (spec_add_months (periodos p) (data_vencimento c)))
                     then spec_add_months (periodos p) (data_vencimento c)
                     else spec_add_months 1
                            (spec_add_months (periodos p) (data_vencimento c)
                               \<lparr>dia := dia (data_vencimento c)
                                   - spec_month_length
                                       (ano (spec_add_months (periodos p) (data_vencimento c)))
                                       (mes (spec_add_months (periodos p) (data_vencimento c)))\<rparr>)),
                  data_recebimento := None,
                  valor_recebido := 0,
                  valor_restante := valor_original c,
                  cr_status := Em_aberto,
                  data_proximo_vencimento := None\<rparr>), c))
   \<and> (recorrente c \<and> periodicidade c = Some p \<and> dia (data_vencimento c) \<le> 28 \<longrightarrow>
      data_vencimento (projr (fst (gerarProximaRecorrencia fuso novo_id c)))
        = spec_add_months (periodos p) (data_vencimento c))
   \<and> (\<not> (recorrente c \<and> periodicidade c \<noteq> None) \<longrightarrow>
      gerarProximaRecorrencia fuso' novo_id c = (Inl NotRecurringError, c))
   \<and> map periodos [Mensal, Bimestral, Trimestral, Semestral, Anual] = [1, 2, 3, 6, 12]
   \<and> spec_add_months (periodos Mensal) \<lparr>ano = 2024, mes = 1, dia = 15\<rparr>
       = \<lparr>ano = 2024, mes = 2, dia = 15\<rparr>"
proof -
  note sm = setMonth_spec [OF assms(2,3)]
  have main: "gerarProximaRecorrencia fuso novo_id c
        = (Inr (c\<lparr>cr_id := novo_id,
                  data_vencimento :=
                    (if dia (data_vencimento c)
                        \<le> spec_month_length
                            (ano (spec_add_months (periodos p) (data_vencimento c)))
                            (mes (spec_add_months (periodos p) (data_vencimento c)))
                     then spec_add_months (periodos p) (data_vencimento c)
                     else spec_add_months 1
                            (spec_add_months (periodos p) (data_vencimento c)
                               \<lparr>dia := dia (data_vencimento c)
                                   - spec_month_length
                                       (ano (spec_add_months (periodos p) (data_vencimento c)))
                                       (mes (spec_add_months (periodos p) (data_vencimento c)))\<rparr>)),
                  data_recebimento := None,
                  valor_recebido := 0,
                  valor_restante := valor_original c,
                  cr_status := Em_aberto,
                  data_proximo_vencimento := None\<rparr>), c)"
    if "recorrente c \<and> periodicidade c = Some p"
    using that assms(1)
    by (simp add: gerarProximaRecorrencia_def Let_def local_date_def sm)
  have small: "data_vencimento (projr (fst (gerarProximaRecorrencia fuso novo_id c)))
        = spec_add_months (periodos p) (data_vencimento c)"
    if h: "recorrente c \<and> periodicidade c = Some p \<and> dia (data_vencimento c) \<le> 28"
  proof -
    have "28 \<le> spec_month_length
        (ano (spec_add_months (periodos p) (data_vencimento c)))
        (mes (spec_add_months (periodos p) (data_vencimento c)))"
      by (rule spec_month_length_ge_28 [OF mes_spec_add_months])
    with h have "dia (data_vencimento c) \<le> spec_month_length
        (ano (spec_add_months (periodos p) (data_vencimento c)))
        (mes (spec_add_months (periodos p) (data_vencimento c)))"
      by simp
    with h show ?thesis
      unfolding main [OF conjI [OF h [THEN conjunct1] h [THEN conjunct2, THEN conjunct1]]]
      by simp
  qed
  have err: "gerarProximaRecorrencia fuso' novo_id c = (Inl NotRecurringError, c)"
    if "\<not> (recorrente c \<and> periodicidade c \<noteq> None)"
    using that by (auto simp: gerarProximaRecorrencia_def)
  have tab: "map periodos [Mensal, Bimestral, Trimestral, Semestral, Anual] = [1, 2, 3, 6, 12]"
    by simp
  have ex: "spec_add_months (periodos Mensal) \<lparr>ano = 2024, mes = 1, dia = 15\<rparr>
       = \<lparr>ano = 2024, mes = 2, dia = 15\<rparr>"
    by (simp add: spec_add_months_def)
  show ?thesis
    using main small err tab ex by (intro conjI impI)
qed

theorem next_recurrence_witness:
  "(0::int) \<le> 0
   \<and> 1 \<le> mes (data_vencimento conta_exemplo) \<and> mes (data_vencimento conta_exemplo) \<le> 12
   \<and> recorrente conta_exemplo \<and> periodicidade conta_exemplo = Some Mensal
   \<and> data_vencimento conta_exemplo = \<lparr>ano = 2024, mes = 1, dia = 15\<rparr>
   \<and> gerarProximaRecorrencia 0 2 conta_exemplo
       = (Inr (conta_exemplo\<lparr>cr_id := 2,
                  data_vencimento := \<lparr>ano = 2024, mes = 2, dia = 15\<rparr>,
                  data_recebimento := None,
                  valor_recebido := 0,
                  valor_restante := 100,
                  cr_status := Em_aberto,
                  data_proximo_vencimento := None\<rparr>), conta_exemplo)
   \<and> (0::int) \<le> 60
   \<and> data_vencimento conta_centavos = \<lparr>ano = 2024, mes = 1, dia = 31\<rparr>
   \<and> recorrente conta_centavos \<and> periodicidade conta_centavos = Some Mensal
   \<and> fst (gerarProximaRecorrencia 60 2 conta_centavos)
       = Inr (conta_centavos\<lparr>cr_id := 2,
                  data_vencimento := \<lparr>ano = 2024, mes = 3, dia = 2\<rparr>,
                  data_recebimento := None,
                  valor_recebido := 0,
                  valor_restante := 11 / 100,
                  cr_status := Em_aberto,
                  data_proximo_vencimento := None\<rparr>)
   \<and> gerarProximaRecorrencia (- 180) 2 (conta_exemplo\<lparr>recorrente := False\<rparr>)
       = (Inl NotRecurringError, conta_exemplo\<lparr>recorrente := False\<rparr>)"
proof -
  have z: "(0::int) \<le> 0" "(0::int) \<le> 60"
    by simp_all
  have h: "1 \<le> mes (data_vencimento conta_exemplo)" "mes (data_vencimento conta_exemplo) \<le> 12"
    and h': "1 \<le> mes (data_vencimento (conta_exemplo\<lparr>recorrente := False\<rparr>))"
      "mes (data_vencimento (conta_exemplo\<lparr>recorrente := False\<rparr>)) \<le> 12"
    and r: "recorrente conta_exemplo \<and> periodicidade conta_exemplo = Some Mensal"
    and d: "data_vencimento conta_exemplo = \<lparr>ano = 2024, mes = 1, dia = 15\<rparr>"
    and o: "valor_original conta_exemplo = 100"
    by (simp_all add: conta_exemplo_def)
  have k: "1 \<le> mes (data_vencimento conta_centavos)" "mes (data_vencimento conta_centavos) \<le> 12"
    and rk: "recorrente conta_centavos \<and> periodicidade conta_centavos = Some Mensal"
    and dk: "data_vencimento conta_centavos = \<lparr>ano = 2024, mes = 1, dia = 31\<rparr>"
    and ok: "valor_original conta_centavos = 11 / 100"
    by (simp_all add: conta_centavos_def)
  have sp: "spec_add_months (periodos Mensal) \<lparr>ano = 2024, mes = 1, dia = 15\<rparr>
      = \<lparr>ano = 2024, mes = 2, dia = 15\<rparr>"
    "spec_add_months (periodos Mensal) \<lparr>ano = 2024, mes = 1, dia = 31\<rparr>
      = \<lparr>ano = 2024, mes = 2, dia = 31\<rparr>"
    "spec_add_months 1 \<lparr>ano = 2024, mes = 2, dia = 2\<rparr> = \<lparr>ano = 2024, mes = 3, dia = 2\<rparr>"
    "spec_add_months (Suc 0) \<lparr>ano = 2024, mes = 2, dia = 2\<rparr> = \<lparr>ano = 2024, mes = 3, dia = 2\<rparr>"
    "spec_month_length 2024 2 = 29"
    by (simp_all add: spec_add_months_def spec_month_length_def)
  have a: "gerarProximaRecorrencia 0 2 conta_exemplo
       = (Inr (conta_exemplo\<lparr>cr_id := 2,
                  data_vencimento := \<lparr>ano = 2024, mes = 2, dia = 15\<rparr>,
                  data_recebimento := None,
                  valor_recebido := 0,
                  valor_restante := 100,
                  cr_status := Em_aberto,
                  data_proximo_vencimento := None\<rparr>), conta_exemplo)"
    using next_recurrence [OF z(1) h, of Mensal 2, THEN conjunct1] r
    unfolding d o sp by (simp add: sp)
  have b: "fst (gerarProximaRecorrencia 60 2 conta_centavos)
       = Inr (conta_centavos\<lparr>cr_id := 2,
                  data_vencimento := \<lparr>ano = 2024, mes = 3, dia = 2\<rparr>,
                  data_recebimento := None,
                  valor_recebido := 0,
                  valor_restante := 11 / 100,
                  cr_status := Em_aberto,
                  data_proximo_vencimento := None\<rparr>)"
    using next_recurrence [OF z(2) k, of Mensal 2, THEN conjunct1] rk
    unfolding dk ok sp by (simp add: sp)
  have c: "gerarProximaRecorrencia (- 180) 2 (conta_exemplo\<lparr>recorrente := False\<rparr>)
       = (Inl NotRecurringError, conta_exemplo\<lparr>recorrente := False\<rparr>)"
    by (rule next_recurrence [OF z(1) h', THEN conjunct2, THEN conjunct2, THEN conjunct1,
          THEN mp]) simp
  show ?thesis
    using z h r d a dk rk b c by (intro conjI) blast+
qed

subsection \<open>Line item margin\<close>

lemma custoTotal_zero:
  assumes "c * q = 0"
  shows "js_fin (js_mul (Fin c) (Fin q)) = Some 0" "js_mul (Fin c) (Fin q) \<noteq> NaN"
  using assms by (auto simp: js_mul_def js_signed_def)

lemma margem_zero_cost:
  assumes "js_fin ct = Some 0" "ct \<noteq> NaN"
  shows "js_mul (js_div (js_sub (Fin t) ct) ct) (Fin 100)
     = (if t = 0 then NaN else js_inf ((t < 0) \<noteq> js_sign ct))"
proof -
  have sub: "js_sub (Fin t) ct = Fin t"
    using assms by (simp add: js_sub_def js_signed_def)
  have dv: "js_div (Fin t) ct = (if t = 0 then NaN else js_inf ((t < 0) \<noteq> js_sign ct))"
    using assms by (simp add: js_div_def)
  show ?thesis
    unfolding sub dv by (simp add: js_mul_def js_inf_def)
qed

lemma margem_nonzero_cost:
  assumes "c * q \<noteq> 0"
  shows "js_fin (js_mul (js_div (js_sub (Fin t) (js_mul (Fin c) (Fin q)))
            (js_mul (Fin c) (Fin q))) (Fin 100))
     = Some ((t - c * q) / (c * q) * 100)"
proof -
  have ct: "js_mul (Fin c) (Fin q) = Fin (c * q)"
    using assms by (simp add: js_mul_def js_signed_def)
  have sub: "js_fin (js_sub (Fin t) (Fin (c * q))) = Some (t - c * q)"
    "js_sub (Fin t) (Fin (c * q)) \<noteq> NaN"
    by (simp_all add: js_sub_def js_signed_def)
  have dv: "js_fin (js_div x (Fin (c * q))) = Some (r / (c * q))"
    "js_div x (Fin (c * q)) \<noteq> NaN" if "js_fin x = Some r" "x \<noteq> NaN" for x r
    using that assms by (simp_all add: js_div_def js_signed_def)
  have ml: "js_fin (js_mul x (Fin 100)) = Some (r * 100)" if "js_fin x = Some r" "x \<noteq> NaN" for x r
    using that by (simp add: js_mul_def js_signed_def)
  show ?thesis
    unfolding ct by (rule ml [OF dv [OF sub]])
qed

text \<open>
  Claim C5 as stated fails: with a cost basis of zero the margin is no \<open>null\<close>. A line
  of one unit at price 10 and unit cost 0 gets the margin \<open>Infinity\<close>, a number.
\<close>

theorem margin_zero_cost_counterexample:
  "custo_unitario item_exemplo * quantidade item_exemplo = 0
   \<and> ret_margem_lucro (fst (calcularTotais item_exemplo)) = Some PosInf
   \<and> ret_margem_lucro (fst (calcularTotais item_exemplo)) \<noteq> None"
  by (simp add: item_exemplo_def calcularTotais_def Let_def js_mul_def js_div_def js_sub_def
      js_signed_def js_inf_def)

text \<open>
  Claim C5, amended. \<open>calcularTotais\<close> never throws. For a line item whose unit cost
  times quantity is zero it reports the margin as a number that is not finite, never as
  \<open>null\<close>: \<open>NaN\<close> when the line total is zero too, and otherwise \<open>Infinity\<close> or
  \<open>-Infinity\<close>. For a line item with a nonzero cost basis the reported margin is the
  number (total - unitCost * quantity) / (unitCost * quantity) * 100, where total is
  the reported line total.
\<close>

theorem margin:
  "(custo_unitario it * quantidade it = 0 \<longrightarrow>
      ret_margem_lucro (fst (calcularTotais it))
        = (if ret_total (fst (calcularTotais it)) = 0 then Some NaN
           else if (ret_total (fst (calcularTotais it)) < 0)
                   = js_sign (js_mul (Fin (custo_unitario it)) (Fin (quantidade it)))
             then Some PosInf else Some NegInf))
   \<and> (custo_unitario it * quantidade it \<noteq> 0 \<longrightarrow>
      (\<exists>m. ret_margem_lucro (fst (calcularTotais it)) = Some m
         \<and> js_fin m = Some ((ret_total (fst (calcularTotais it))
                               - custo_unitario it * quantidade it)
                             / (custo_unitario it * quantidade it) * 100)))
   \<and> margem_lucro (snd (calcularTotais it)) = ret_margem_lucro (fst (calcularTotais it))"
proof (intro conjI impI)
  assume z: "custo_unitario it * quantidade it = 0"
  show "ret_margem_lucro (fst (calcularTotais it))
        = (if ret_total (fst (calcularTotais it)) = 0 then Some NaN
           else if (ret_total (fst (calcularTotais it)) < 0)
                   = js_sign (js_mul (Fin (custo_unitario it)) (Fin (quantidade it)))
             then Some PosInf else Some NegInf)"
    by (simp add: calcularTotais_def Let_def margem_zero_cost [OF custoTotal_zero [OF z]]
        js_inf_def)
next
  assume nz: "custo_unitario it * quantidade it \<noteq> 0"
  show "\<exists>m. ret_margem_lucro (fst (calcularTotais it)) = Some m
         \<and> js_fin m = Some ((ret_total (fst (calcularTotais it))
                               - custo_unitario it * quantidade it)
                             / (custo_unitario it * quantidade it) * 100)"
    by (simp add: calcularTotais_def Let_def margem_nonzero_cost [OF nz])
next
  show "margem_lucro (snd (calcularTotais it)) = ret_margem_lucro (fst (calcularTotais it))"
    by (simp add: calcularTotais_def Let_def)
qed

theorem margin_witness:
  "custo_unitario item_exemplo * quantidade item_exemplo = 0
   \<and> ret_margem_lucro (fst (calcularTotais item_exemplo)) = Some PosInf
   \<and> custo_unitario (item_exemplo\<lparr>custo_unitario := 4\<rparr>)
       * quantidade (item_exemplo\<lparr>custo_unitario := 4\<rparr>) \<noteq> 0
   \<and> ret_total (fst (calcularTotais (item_exemplo\<lparr>custo_unitario := 4\<rparr>))) = 10
   \<and> (\<exists>m. ret_margem_lucro (fst (calcularTotais (item_exemplo\<lparr>custo_unitario := 4\<rparr>))) = Some m
        \<and> js_fin m = Some 150)"
proof -
  have a: "custo_unitario item_exemplo * quantidade item_exemplo = 0"
    and b: "custo_unitario (item_exemplo\<lparr>custo_unitario := 4\<rparr>)
       * quantidade (item_exemplo\<lparr>custo_unitario := 4\<rparr>) = 4"
    and ta: "ret_total (fst (calcularTotais item_exemplo)) = 10"
    and tb: "ret_total (fst (calcularTotais (item_exemplo\<lparr>custo_unitario := 4\<rparr>))) = 10"
    and s: "js_sign (js_mul (Fin (custo_unitario item_exemplo)) (Fin (quantidade item_exemplo)))
       = False"
    by (simp_all add: item_exemplo_def calcularTotais_def Let_def js_mul_def js_signed_def)
  have one: "ret_margem_lucro (fst (calcularTotais item_exemplo)) = Some PosInf"
    using margin [of item_exemplo, THEN conjunct1] a unfolding ta s by simp
  have two: "\<exists>m. ret_margem_lucro (fst (calcularTotais (item_exemplo\<lparr>custo_unitario := 4\<rparr>))) = Some m
        \<and> js_fin m = Some 150"
    using margin [of "item_exemplo\<lparr>custo_unitario := 4\<rparr>", THEN conjunct2, THEN conjunct1]
    unfolding b tb by simp
  show ?thesis
    using a b one two tb by simp
qed

subsection \<open>Access key\<close>

lemma digit_char_of_char:
  assumes "is_digit c"
  shows "digit_char (of_char c - 48) = c"
  using assms by (simp add: digit_char_def is_digit_def)

lemma digit_char_table:
  "digit_char 0 = CHR ''0''" "digit_char 1 = CHR ''1''" "digit_char 2 = CHR ''2''"
  "digit_char 3 = CHR ''3''" "digit_char 4 = CHR ''4''" "digit_char 5 = CHR ''5''"
  "digit_char 6 = CHR ''6''" "digit_char 7 = CHR ''7''" "digit_char 8 = CHR ''8''"
  "digit_char 9 = CHR ''9''" "digit_char (Suc 0) = CHR ''1''"
  using digit_char_of_char [of "CHR ''0''"] digit_char_of_char [of "CHR ''1''"]
    digit_char_of_char [of "CHR ''2''"] digit_char_of_char [of "CHR ''3''"]
    digit_char_of_char [of "CHR ''4''"] digit_char_of_char [of "CHR ''5''"]
    digit_char_of_char [of "CHR ''6''"] digit_char_of_char [of "CHR ''7''"]
    digit_char_of_char [of "CHR ''8''"] digit_char_of_char [of "CHR ''9''"]
  by (simp_all add: is_digit_def)

lemma of_char_digit_char:
  assumes "d < 10"
  shows "(of_char (digit_char d) :: nat) = 48 + d"
  using assms by (simp add: digit_char_def)

lemma is_digit_digit_char:
  assumes "d < 10"
  shows "is_digit (digit_char d)"
  using assms by (simp add: is_digit_def of_char_digit_char)

lemma parseInt_is_digit:
  assumes "is_digit c"
  shows "parseInt_char c = Some (of_char c - 48)"
  using assms by (simp add: parseInt_char_def is_digit_def)

lemma spec_field_0: "spec_field k 0 = replicate k CHR ''0''"
  by (induction k) (simp_all add: digit_char_table(1) replicate_append_same)

lemma length_spec_field [simp]: "length (spec_field k v) = k"
  by (induction k arbitrary: v) simp_all

lemma is_digit_spec_field: "c \<in> set (spec_field k v) \<Longrightarrow> is_digit c"
  by (induction k arbitrary: v) (auto simp: is_digit_digit_char)

lemma padStart_snoc:
  "padStart (Suc k) c (s @ [x]) = padStart k c s @ [x]"
  by (simp add: padStart_def)

lemma padStart_nat_toString:
  assumes "v < 10 ^ Suc k"
  shows "padStart (Suc k) CHR ''0'' (nat_toString v) = spec_field (Suc k) v"
  using assms
proof (induction k arbitrary: v)
  case 0
  then show ?case
    by (subst nat_toString.simps) (simp add: padStart_def)
next
  case (Suc k)
  show ?case
  proof (cases "v < 10")
    case True
    then have "nat_toString v = [digit_char v]"
      by (subst nat_toString.simps) simp
    with True show ?thesis
      by (simp add: padStart_def spec_field_0 digit_char_table(1) replicate_append_same)
  next
    case False
    then have unf: "nat_toString v = nat_toString (v div 10) @ [digit_char (v mod 10)]"
      by (subst nat_toString.simps) simp
    from Suc.prems have "v div 10 < 10 ^ Suc k"
      by (simp add: less_mult_imp_div_less mult.commute)
    from Suc.IH [OF this] show ?thesis
      unfolding unf padStart_snoc by simp
  qed
qed

lemma padStart_field:
  assumes "0 < k" "v < 10 ^ k"
  shows "padStart k CHR ''0'' (nat_toString v) = spec_field k v"
proof -
  from assms(1) obtain k' where "k = Suc k'"
    by (cases k) simp_all
  with assms(2) show ?thesis
    using padStart_nat_toString [of v k'] by simp
qed

lemma peso_step: "(if 2 + i mod 8 = 9 then 2 else 2 + i mod 8 + 1) = 2 + Suc i mod (8::nat)"
  by (simp add: mod_Suc)

lemma soma_loop_digits:
  assumes "\<forall>c \<in> set cs. is_digit c"
  shows "soma_loop cs (2 + i mod 8) (Some s)
     = Some (s + (\<Sum>k < length cs. ((of_char (cs ! k) :: nat) - 48) * (2 + (i + k) mod 8)))"
  using assms
proof (induction cs arbitrary: i s)
  case Nil
  then show ?case
    by simp
next
  case (Cons c cs)
  then have c: "parseInt_char c = Some (of_char c - 48)" and cs: "\<forall>c \<in> set cs. is_digit c"
    by (simp_all add: parseInt_is_digit)
  have "soma_loop (c # cs) (2 + i mod 8) (Some s)
      = soma_loop cs (2 + Suc i mod 8) (Some (s + (of_char c - 48) * (2 + i mod 8)))"
    by (simp only: soma_loop.simps c peso_step prod.case option.case)
  also have "\<dots> = Some (s + (of_char c - 48) * (2 + i mod 8)
      + (\<Sum>k < length cs. ((of_char (cs ! k) :: nat) - 48) * (2 + (Suc i + k) mod 8)))"
    by (rule Cons.IH [OF cs])
  also have "\<dots> = Some (s + (\<Sum>k < length (c # cs).
      ((of_char ((c # cs) ! k) :: nat) - 48) * (2 + (i + k) mod 8)))"
    by (simp add: sum.lessThan_Suc_shift del: sum.lessThan_Suc)
  finally show ?case .
qed

lemma soma_loop_spec:
  assumes "\<forall>c \<in> set b. is_digit c"
  shows "soma_loop (rev b) 2 (Some 0) = Some (spec_weighted_sum b)"
proof -
  have "\<forall>c \<in> set (rev b). is_digit c"
    using assms by simp
  from soma_loop_digits [OF this, of 0 0] show ?thesis
    by (simp add: spec_weighted_sum_def)
qed

lemma nat_toString_digit:
  assumes "d < 10"
  shows "nat_toString d = [digit_char d]"
  using assms by (subst nat_toString.simps) simp

lemma digitoVerificador_spec:
  assumes "\<forall>c \<in> set b. is_digit c"
  shows "digitoVerificador b = [digit_char (spec_check_digit b)]"
    and "spec_check_digit b < 10"
proof -
  define r where "r = spec_weighted_sum b mod 11"
  have r: "r < 11"
    by (simp add: r_def)
  have dv: "11 - int r = int (11 - r)"
    using r by simp
  have d: "digitoVerificador b
      = (if 11 - r = 10 \<or> 11 - r = 11 then ''0'' else int_toString (int (11 - r)))"
    unfolding digitoVerificador_def soma_loop_spec [OF assms] option.case Let_def
      r_def [symmetric] dv
    by (simp only: of_nat_eq_iff [symmetric, where ?'a = int] of_nat_numeral)
  have s: "spec_check_digit b = (if 11 - r = 10 \<or> 11 - r = 11 then 0 else 11 - r)"
    by (simp add: spec_check_digit_def Let_def r_def)
  show "spec_check_digit b < 10"
    unfolding s using r by auto
  show "digitoVerificador b = [digit_char (spec_check_digit b)]"
  proof (cases "11 - r = 10 \<or> 11 - r = 11")
    case True
    then show ?thesis
      unfolding d s by (simp add: digit_char_table(1))
  next
    case False
    then have "11 - r < 10"
      using r by auto
    with False show ?thesis
      unfolding d s by (simp add: int_toString_def nat_toString_digit)
  qed
qed

lemma spec_field_2: "spec_field 2 v = [digit_char (v div 10 mod 10), digit_char (v mod 10)]"
  by (simp add: numeral_2_eq_2)

lemma spec_field_4:
  "spec_field 4 v = [digit_char (v div 1000 mod 10), digit_char (v div 100 mod 10),
      digit_char (v div 10 mod 10), digit_char (v mod 10)]"
proof -
  have a: "v div 10 div 10 = v div 100"
    using div_mult2_eq [of v 10 10] by simp
  have b: "v div 100 div 10 = v div 1000"
    using div_mult2_eq [of v 100 10] by simp
  have "spec_field (Suc (Suc (Suc (Suc 0)))) v
      = [digit_char (v div 10 div 10 div 10 mod 10), digit_char (v div 10 div 10 mod 10),
         digit_char (v div 10 mod 10), digit_char (v mod 10)]"
    by simp
  moreover have "(4::nat) = Suc (Suc (Suc (Suc 0)))"
    by simp
  ultimately show ?thesis
    unfolding a b by metis
qed

lemma slice_iso:
  assumes "length a = 4" "length b = 2"
  shows "slice 2 4 (a @ ''-'' @ b) = drop 2 a" "slice 5 7 (a @ ''-'' @ b) = b"
  using assms by (simp_all add: slice_def)

lemma drop_2_spec_field_4: "drop 2 (spec_field 4 v) = spec_field 2 (v mod 100)"
proof -
  have "v mod 100 = 10 * (v div 10 mod 10) + v mod 10"
    using mod_mult2_eq [of v 10 10] by simp
  then have "v mod 100 div 10 mod 10 = v div 10 mod 10" "v mod 100 mod 10 = v mod 10"
    by simp_all
  then have "spec_field 2 (v mod 100) = [digit_char (v div 10 mod 10), digit_char (v mod 10)]"
    by (simp only: spec_field_2)
  moreover have "drop 2 (spec_field 4 v) = [digit_char (v div 10 mod 10), digit_char (v mod 10)]"
    unfolding spec_field_4 by simp
  ultimately show ?thesis
    by simp
qed

lemma iso_prefix_slices:
  assumes "0 \<le> y" "y \<le> 9999" "1 \<le> m" "m \<le> 12"
  shows "slice 2 4 (toISOString_prefix y m) @ slice 5 7 (toISOString_prefix y m)
     = spec_field 2 (nat (y mod 100)) @ spec_field 2 m"
proof -
  have y: "nat y < 10 ^ 4" and m: "m < 10 ^ 2"
    using assms by simp_all
  have "toISOString_prefix y m
      = padStart 4 CHR ''0'' (nat_toString (nat y)) @ ''-'' @ padStart 2 CHR ''0'' (nat_toString m)"
    using assms(1,2) by (simp only: toISOString_prefix_def simp_thms if_True)
  then have p: "toISOString_prefix y m = spec_field 4 (nat y) @ ''-'' @ spec_field 2 m"
    by (simp only: padStart_field [OF _ y] padStart_field [OF _ m] zero_less_numeral)
  have e: "nat (y mod 100) = nat y mod 100"
    using assms(1) by (simp add: nat_mod_distrib)
  have l: "length (spec_field 4 (nat y)) = 4" "length (spec_field 2 m) = 2"
    by (rule length_spec_field)+
  show ?thesis
    unfolding p e slice_iso [OF l] drop_2_spec_field_4 ..
qed

lemma baseChave_spec:
  assumes "0 \<le> codigo_uf emp" "codigo_uf emp < 100"
    and "0 \<le> serie n" "serie n < 1000"
    and "0 \<le> numero n" "numero n < 1000000000"
    and "cNF < 100000000"
    and "0 \<le> emissao_ano n" "emissao_ano n \<le> 9999"
    and "1 \<le> emissao_mes n" "emissao_mes n \<le> 12"
  shows "baseChave emp cNF n = spec_base_string emp cNF n"
proof -
  have uf: "padStart 2 CHR ''0'' (int_toString (codigo_uf emp)) = spec_field 2 (nat (codigo_uf emp))"
    using assms(1,2) by (simp add: int_toString_def padStart_field)
  have se: "padStart 3 CHR ''0'' (int_toString (serie n)) = spec_field 3 (nat (serie n))"
    using assms(3,4) by (simp add: int_toString_def padStart_field)
  have nu: "padStart 9 CHR ''0'' (int_toString (numero n)) = spec_field 9 (nat (numero n))"
    using assms(5,6) by (simp add: int_toString_def padStart_field)
  have cn: "padStart 8 CHR ''0'' (nat_toString cNF) = spec_field 8 cNF"
    using assms(7) by (simp add: padStart_field)
  note dt = iso_prefix_slices [OF assms(8,9,10,11)]
  have mo: "(if tipo_documento n = Nfce then ''65'' else ''55'')
      = (if tipo_documento n = Nfe then ''55'' else ''65'')"
    by (cases "tipo_documento n") simp_all
  show ?thesis
    unfolding baseChave_def Let_def uf se nu cn dt mo spec_base_string_def
    by (simp add: padStart_def)
qed

lemma spec_base_string_digits:
  assumes "\<forall>c \<in> set (cnpj emp). is_digit c"
  shows "\<forall>c \<in> set (spec_base_string emp cNF n). is_digit c"
proof -
  have "is_digit CHR ''0''" "is_digit CHR ''1''" "is_digit CHR ''5''" "is_digit CHR ''6''"
    by (simp_all add: is_digit_def)
  with assms show ?thesis
    by (auto simp: spec_base_string_def dest: is_digit_spec_field)
qed

lemma length_spec_base_string:
  assumes "length (cnpj emp) \<le> 14"
  shows "length (spec_base_string emp cNF n) = 43"
  using assms by (simp add: spec_base_string_def)

lemma replicate_numeral: "replicate (numeral v) x = x # replicate (numeral v - 1) x"
  by (simp add: numeral_eq_Suc)

text \<open>
  Claim C2 as stated fails: \<open>padStart\<close> pads and never cuts, so a field whose value is
  wider than its width lengthens the key. The example document with the series 1000 gets
  a key of 45 characters.
\<close>

theorem access_key_counterexample:
  "length (gerarChaveAcesso empresa_exemplo 12345678 (nota_exemplo\<lparr>serie := 1000\<rparr>)) = 45"
proof -
  have b: "baseChave empresa_exemplo 12345678 (nota_exemplo\<lparr>serie := 1000\<rparr>)
      = ''35240111222333000181551000000000001112345678''"
    by (simp add: baseChave_def Let_def padStart_def int_toString_def nat_toString.simps
        toISOString_prefix_def slice_def digit_char_table empresa_exemplo_def nota_exemplo_def
        replicate_numeral)
  have d: "digitoVerificador ''35240111222333000181551000000000001112345678'' = ''6''"
    by (simp add: digitoVerificador_def parseInt_char_def int_toString_def nat_toString.simps
        digit_char_table)
  show ?thesis
    unfolding gerarChaveAcesso_def b d by simp
qed

text \<open>
  Claim C2, amended. Whenever every field fits its width (a region code from 0 to 99, a
  tax id of at most 14 decimal digits, a series from 0 to 999, a number from 0 to
  999999999, a control number below 100000000, an issue date in the years 0 to 9999),
  the generated access key has exactly 44 characters: the 43-character base that
  concatenates the zero-padded region code (2), the two-digit year and the two-digit
  month of the issue date (4), the tax id (14), the document type code (2, 55 for the
  standard invoice and 65 for the retail receipt), the series (3), the number (9), the
  emission-mode flag 1 and the control number (8), followed by one check digit. The check
  digit is that of the weighted sum of the base string modulo 11, from the last character
  to the first with weights cycling 2 to 9: dv = 11 - (sum mod 11), and 0 when dv is 10
  or 11. The key is a function of these inputs.
\<close>

theorem access_key:
  assumes "0 \<le> codigo_uf emp" "codigo_uf emp < 100"
    and "length (cnpj emp) \<le> 14" "\<forall>c \<in> set (cnpj emp). is_digit c"
    and "0 \<le> serie n" "serie n < 1000"
    and "0 \<le> numero n" "numero n < 1000000000"
    and "cNF < 100000000"
    and "0 \<le> emissao_ano n" "emissao_ano n \<le> 9999"
    and "1 \<le> emissao_mes n" "emissao_mes n \<le> 12"
  shows "gerarChaveAcesso emp cNF n
       = spec_base_string emp cNF n @ [digit_char (spec_check_digit (spec_base_string emp cNF n))]
   \<and> length (spec_base_string emp cNF n) = 43
   \<and> length (gerarChaveAcesso emp cNF n) = 44
   \<and> spec_check_digit (spec_base_string emp cNF n) < 10"
proof -
  have b: "baseChave emp cNF n = spec_base_string emp cNF n"
    by (rule baseChave_spec [OF assms(1,2) assms(5-13)])
  note d = digitoVerificador_spec [OF spec_base_string_digits [OF assms(4)], of cNF n]
  have k: "gerarChaveAcesso emp cNF n
       = spec_base_string emp cNF n @ [digit_char (spec_check_digit (spec_base_string emp cNF n))]"
    unfolding gerarChaveAcesso_def b d(1) ..
  have l: "length (spec_base_string emp cNF n) = 43"
    by (rule length_spec_base_string [OF assms(3)])
  show ?thesis
    using k l d(2) by simp
qed

theorem access_key_witness:
  "gerarChaveAcesso empresa_exemplo 12345678 nota_exemplo
     = ''35240111222333000181550010000000011123456788''
   \<and> spec_base_string empresa_exemplo 12345678 nota_exemplo
     = ''3524011122233300018155001000000001112345678''
   \<and> spec_check_digit ''3524011122233300018155001000000001112345678'' = 8
   \<and> length (gerarChaveAcesso empresa_exemplo 12345678 nota_exemplo) = 44"
proof -
  let ?base = "''3524011122233300018155001000000001112345678''"
  have h: "0 \<le> codigo_uf empresa_exemplo" "codigo_uf empresa_exemplo < 100"
    "length (cnpj empresa_exemplo) \<le> 14" "\<forall>c \<in> set (cnpj empresa_exemplo). is_digit c"
    "0 \<le> serie nota_exemplo" "serie nota_exemplo < 1000"
    "0 \<le> numero nota_exemplo" "numero nota_exemplo < 1000000000"
    "(12345678::nat) < 100000000"
    "0 \<le> emissao_ano nota_exemplo" "emissao_ano nota_exemplo \<le> 9999"
    "1 \<le> emissao_mes nota_exemplo" "emissao_mes nota_exemplo \<le> 12"
    by (simp_all add: empresa_exemplo_def nota_exemplo_def is_digit_def)
  have b: "baseChave empresa_exemplo 12345678 nota_exemplo = ?base"
    by (simp add: baseChave_def Let_def padStart_def int_toString_def nat_toString.simps
        toISOString_prefix_def slice_def digit_char_table empresa_exemplo_def nota_exemplo_def
        replicate_numeral)
  have d: "digitoVerificador ?base = ''8''"
    by (simp add: digitoVerificador_def parseInt_char_def int_toString_def nat_toString.simps
        digit_char_table)
  have g: "gerarChaveAcesso empresa_exemplo 12345678 nota_exemplo = ?base @ ''8''"
    unfolding gerarChaveAcesso_def b d ..
  note t = access_key [OF h]
  note l = t [THEN conjunct2, THEN conjunct1]
  note l44 = t [THEN conjunct2, THEN conjunct2, THEN conjunct1]
  note c = t [THEN conjunct2, THEN conjunct2, THEN conjunct2]
  note k = t [THEN conjunct1, unfolded g]
  have "length ?base = length (spec_base_string empresa_exemplo 12345678 nota_exemplo)
      \<or> length ''8''
        = length [digit_char (spec_check_digit
            (spec_base_string empresa_exemplo 12345678 nota_exemplo))]"
    by simp
  note k' = k [unfolded append_eq_append_conv [OF this]]
  have s: "spec_base_string empresa_exemplo 12345678 nota_exemplo = ?base"
    using k' [THEN conjunct1] by (rule sym)
  have e: "digit_char (spec_check_digit (spec_base_string empresa_exemplo 12345678 nota_exemplo))
      = CHR ''8''"
    using k' [THEN conjunct2] by (metis list.inject)
  have "(of_char (digit_char (spec_check_digit ?base)) :: nat) = of_char CHR ''8''"
    unfolding e [unfolded s] ..
  then have v: "spec_check_digit ?base = 8"
    using c [unfolded s] by (simp add: of_char_digit_char)
  have g': "gerarChaveAcesso empresa_exemplo 12345678 nota_exemplo
     = ''35240111222333000181550010000000011123456788''"
    unfolding g by simp
  show ?thesis
    using g' s v l44 by (intro conjI)
qed

end
